theory Spec2Isabelle
  imports Main
begin

section \<open>The ingestion server of cmd/fapi/main.go\<close>

text \<open>
  A Go \<^verbatim>\<open>[]byte\<close> and a Go \<^verbatim>\<open>string\<close> are both byte sequences; an Isabelle
  \<^typ>\<open>char\<close> is one byte, so both are modelled as \<^typ>\<open>string\<close>.
\<close>

type_synonym bytes = string

subsection \<open>Constants\<close>

definition uploadDir :: string where
  "uploadDir = ''./uploads''"

definition maxBodySize :: nat where
  "maxBodySize = push_bit 20 10"

definition workerCount :: nat where
  "workerCount = 4"

definition writeQueueCap :: nat where
  "writeQueueCap = 100"

definition MethodGet :: string where "MethodGet = ''GET''"
definition MethodPost :: string where "MethodPost = ''POST''"
definition MethodOptions :: string where "MethodOptions = ''OPTIONS''"

definition StatusOK :: nat where "StatusOK = 200"
definition StatusAccepted :: nat where "StatusAccepted = 202"
definition StatusNoContent :: nat where "StatusNoContent = 204"
definition StatusBadRequest :: nat where "StatusBadRequest = 400"
definition StatusMethodNotAllowed :: nat where "StatusMethodNotAllowed = 405"
definition StatusRequestTimeout :: nat where "StatusRequestTimeout = 408"
definition StatusInternalServerError :: nat where "StatusInternalServerError = 500"
definition StatusServiceUnavailable :: nat where "StatusServiceUnavailable = 503"

text \<open>The double quote and the line feed, written by code so that literals stay plain.\<close>

definition dq :: char where "dq = CHR 0x22"
definition lf :: char where "lf = CHR 0x0A"

definition quoted :: "string \<Rightarrow> string" where
  "quoted s = dq # s @ [dq]"

subsection \<open>Data model\<close>

record writeRequest =
  data :: bytes
  path :: string

text \<open>
  The parts of \<^verbatim>\<open>*http.Request\<close> that the handlers and the mux read. \<open>URLPath\<close> is
  \<^verbatim>\<open>r.URL.Path\<close>, the decoded path, which the logging layer prints; \<open>EscapedPath\<close> is
  \<^verbatim>\<open>r.URL.EscapedPath()\<close>, the path with its percent escapes. \<open>Header\<close> maps a
  canonical key to the values of its header lines; \<open>Body\<close> is the body as sent on the
  wire.
\<close>

record request =
  Method :: string
  URLPath :: string
  EscapedPath :: string
  Header :: "string \<rightharpoonup> string list"
  RemoteAddr :: string
  Body :: bytes

text \<open>\<^verbatim>\<open>Header.Get\<close>: the first value of the key, the empty string when there is none.\<close>

definition Header_Get :: "(string \<rightharpoonup> string list) \<Rightarrow> string \<Rightarrow> string" where
  "Header_Get h k = (case h k of None \<Rightarrow> [] | Some [] \<Rightarrow> [] | Some (v # _) \<Rightarrow> v)"

text \<open>
  \<^verbatim>\<open>http.ResponseWriter\<close>: the headers set so far, the status once \<^verbatim>\<open>WriteHeader\<close> has
  been called, and the bytes written.
\<close>

record responseWriter =
  wHeader :: "string \<rightharpoonup> string"
  wStatus :: "nat option"
  wBody :: bytes

definition newResponseWriter :: responseWriter where
  "newResponseWriter = \<lparr>wHeader = Map.empty, wStatus = None, wBody = []\<rparr>"

definition Header_Set :: "string \<Rightarrow> string \<Rightarrow> responseWriter \<Rightarrow> responseWriter" where
  "Header_Set k v w = w\<lparr>wHeader := (wHeader w)(k \<mapsto> v)\<rparr>"

text \<open>A second \<^verbatim>\<open>WriteHeader\<close> is ignored; a \<^verbatim>\<open>Write\<close> before any status sends 200.\<close>

definition WriteHeader :: "nat \<Rightarrow> responseWriter \<Rightarrow> responseWriter" where
  "WriteHeader code w = (case wStatus w of None \<Rightarrow> w\<lparr>wStatus := Some code\<rparr> | Some _ \<Rightarrow> w)"

definition Write :: "bytes \<Rightarrow> responseWriter \<Rightarrow> responseWriter" where
  "Write b w = (let w' = WriteHeader StatusOK w in w'\<lparr>wBody := wBody w' @ b\<rparr>)"

text \<open>A \<^verbatim>\<open>*bufio.Writer\<close>: its target file, the bytes buffered, and its sticky error.\<close>

record bufioWriter =
  wr :: "string option"
  buf :: bytes
  err :: "string option"

text \<open>
  The process state: the channel buffer of \<^verbatim>\<open>writeQueue\<close>, the readiness flag, the
  file system below the working directory, the file handles open, the buffer pool (idle
  buffers and the number handed out), the log, and the responses already sent.
\<close>

record state =
  writeQueue :: "writeRequest list"
  isReady :: bool
  files :: "string \<rightharpoonup> bytes"
  openFiles :: "string list"
  poolIdle :: "bufioWriter list"
  poolBorrowed :: nat
  logs :: "string list"
  sent :: "responseWriter list"

text \<open>
  What a goroutine's call does: it returns, it panics (with the message, and the state
  reached when the panic starts to unwind), or it stays parked.
\<close>

datatype 'a outcome = Return 'a | Panic string 'a | Blocked

subsection \<open>Library functions and the environment of one request\<close>

text \<open>
  What \<^verbatim>\<open>http.MaxBytesReader\<close> hands to its reader: the bytes that can be read, and
  whether the read after them fails (body longer than the limit) or is a clean end.
\<close>

record reader =
  avail :: bytes
  failsAtEnd :: bool

definition MaxBytesReader :: "bytes \<Rightarrow> nat \<Rightarrow> reader" where
  "MaxBytesReader b n = \<lparr>avail = take n b, failsAtEnd = (n < length b)\<rparr>"

text \<open>\<^verbatim>\<open>io.ReadAll\<close> on such a reader.\<close>

definition io_ReadAll :: "reader \<Rightarrow> string + bytes" where
  "io_ReadAll rd = (if failsAtEnd rd then Inl ''http: request body too large'' else Inr (avail rd))"

text \<open>
  \<^verbatim>\<open>compress/gzip\<close> on a reader: \<^verbatim>\<open>gzip.NewReader\<close> rejects the header, or reading
  the stream to its end fails, or the decompressed bytes are returned.
\<close>

datatype gzresult = GzHeaderErr string | GzReadErr string | GzOk bytes

text \<open>
  The standard-library functions the handlers call, taken as given:
  \<^verbatim>\<open>json.Valid\<close>, gzip decompression, \<^verbatim>\<open>net.SplitHostPort\<close> (the host, or \<open>None\<close> on
  error) and \<^verbatim>\<open>strings.TrimSpace\<close>.
\<close>

record lib =
  json_Valid :: "bytes \<Rightarrow> bool"
  gzip_decode :: "reader \<Rightarrow> gzresult"
  net_SplitHostPort :: "string \<Rightarrow> string option"
  strings_TrimSpace :: "string \<Rightarrow> string"

text \<open>The wall clock as \<^verbatim>\<open>time.Now().UTC()\<close> reads it.\<close>

record gotime =
  year :: int
  month :: int
  day :: int
  hour :: int
  minute :: int
  second :: int
  nanosecond :: int

text \<open>
  What the runtime supplies while one request is handled: the clock, the raw random
  draw, whether the request's context is done when the \<^verbatim>\<open>select\<close> is evaluated, which
  case the runtime picks when both are ready (\<open>True\<close>: the send), and the elapsed time
  that the logging layer prints.
\<close>

record env =
  now :: gotime
  randDraw :: nat
  ctxDone :: bool
  ctxErr :: string
  selectPick :: bool
  elapsed :: string

subsection \<open>String functions\<close>

text \<open>\<^verbatim>\<open>strings.Split\<close> with a one-byte separator: never an empty slice.\<close>

fun strings_Split :: "string \<Rightarrow> char \<Rightarrow> string list" where
  "strings_Split [] sep = [[]]"
| "strings_Split (c # cs) sep =
     (if c = sep then [] # strings_Split cs sep
      else (case strings_Split cs sep of [] \<Rightarrow> [[c]] | p # ps \<Rightarrow> (c # p) # ps))"

text \<open>\<^verbatim>\<open>strings.Join\<close> with a one-byte separator.\<close>

fun strings_Join :: "string list \<Rightarrow> char \<Rightarrow> string" where
  "strings_Join [] sep = []"
| "strings_Join [p] sep = p"
| "strings_Join (p # q # ps) sep = p @ sep # strings_Join (q # ps) sep"

text \<open>\<^verbatim>\<open>strings.ReplaceAll\<close> of one byte by another.\<close>

definition strings_ReplaceAll :: "string \<Rightarrow> char \<Rightarrow> char \<Rightarrow> string" where
  "strings_ReplaceAll s old new = map (\<lambda>c. if c = old then new else c) s"

text \<open>Decimal digits of a natural number, as \<^verbatim>\<open>%d\<close> prints them.\<close>

fun itoa :: "nat \<Rightarrow> string" where
  "itoa n = (if n < 10 then [''0123456789'' ! n]
             else itoa (n div 10) @ [''0123456789'' ! (n mod 10)])"

declare itoa.simps [simp del]

text \<open>\<^verbatim>\<open>appendInt\<close> of package time: a sign for negatives, zero padding to the width.\<close>

definition appendInt :: "int \<Rightarrow> nat \<Rightarrow> string" where
  "appendInt x width =
     (let ds = itoa (nat \<bar>x\<bar>)
      in (if x < 0 then ''-'' else []) @ replicate (width - length ds) (CHR ''0'') @ ds)"

text \<open>\<^verbatim>\<open>Format("2006-01-02-15_04_05.000000000")\<close>.\<close>

definition time_Format :: "gotime \<Rightarrow> string" where
  "time_Format t =
     appendInt (year t) 4 @ ''-'' @ appendInt (month t) 2 @ ''-'' @ appendInt (day t) 2 @ ''-'' @
     appendInt (hour t) 2 @ ''_'' @ appendInt (minute t) 2 @ ''_'' @ appendInt (second t) 2 @
     ''.'' @ appendInt (nanosecond t) 9"

text \<open>\<^verbatim>\<open>rand.Intn(n)\<close>: a value below \<open>n\<close>.\<close>

definition rand_Intn :: "env \<Rightarrow> nat \<Rightarrow> nat" where
  "rand_Intn e n = randDraw e mod n"

subsection \<open>Paths\<close>

text \<open>
  Paths are those of a Unix build, with the slash as separator.
  \<^verbatim>\<open>filepath.Clean\<close> on a slash-separated path, element by element: empty and \<open>.\<close>
  elements go, \<open>..\<close> removes the element before it, or stays when the path is not rooted
  and nothing is left to remove. \<open>out\<close> is the output so far, last element first.
\<close>

fun cleanElems :: "bool \<Rightarrow> string list \<Rightarrow> string list \<Rightarrow> string list" where
  "cleanElems rooted out [] = rev out"
| "cleanElems rooted out (e # es) =
     (if e = [] \<or> e = ''.'' then cleanElems rooted out es
      else if e = ''..'' then
        (case out of
           t # ts \<Rightarrow> if t \<noteq> ''..'' then cleanElems rooted ts es
                     else cleanElems rooted (''..'' # out) es
         | [] \<Rightarrow> if rooted then cleanElems rooted [] es
                 else cleanElems rooted [''..''] es)
      else cleanElems rooted (e # out) es)"

definition filepath_Clean :: "string \<Rightarrow> string" where
  "filepath_Clean p =
     (case p of
        [] \<Rightarrow> ''.''
      | c # _ \<Rightarrow>
          (let rooted = (c = CHR ''/'');
               s = (if rooted then ''/'' else []) @
                   strings_Join (cleanElems rooted [] (strings_Split p (CHR ''/''))) (CHR ''/'')
           in if s = [] then ''.'' else s))"

text \<open>\<^verbatim>\<open>filepath.Join\<close> of two elements.\<close>

definition filepath_Join :: "string \<Rightarrow> string \<Rightarrow> string" where
  "filepath_Join a b =
     (if a \<noteq> [] then filepath_Clean (strings_Join [a, b] (CHR ''/''))
      else if b \<noteq> [] then filepath_Clean b
      else [])"

subsection \<open>Client address\<close>

text \<open>\<open>Inl\<close> is the run-time panic of an index out of range.\<close>

definition getClientIP :: "lib \<Rightarrow> request \<Rightarrow> string + string" where
  "getClientIP l r =
     (let forwarded = Header_Get (Header r) ''X-Forwarded-For'' in
      if forwarded \<noteq> [] then
        (case strings_Split forwarded (CHR '','') of
           [] \<Rightarrow> Inl ''index out of range [0] with length 0''
         | p # _ \<Rightarrow> Inr (strings_TrimSpace l p))
      else
        (case net_SplitHostPort l (RemoteAddr r) of
           None \<Rightarrow> Inr []
         | Some ip \<Rightarrow> Inr ip))"

definition sanitizeIP :: "string \<Rightarrow> string" where
  "sanitizeIP ip =
     (let ip1 = strings_ReplaceAll ip (CHR '':'') (CHR ''_'');
          ip2 = strings_ReplaceAll ip1 (CHR ''/'') (CHR ''_'');
          ip3 = strings_ReplaceAll ip2 (CHR 0x5C) (CHR ''_'')
      in ip3)"

subsection \<open>Readiness flag\<close>

definition setReady :: "bool \<Rightarrow> state \<Rightarrow> state" where
  "setReady ready s = s\<lparr>isReady := ready\<rparr>"

definition checkReady :: "state \<Rightarrow> bool" where
  "checkReady s = isReady s"

subsection \<open>Responses\<close>

text \<open>
  The log, one entry per call: \<^verbatim>\<open>log.Println\<close> ends the line itself, \<^verbatim>\<open>log.Printf\<close> is
  given the line as formatted.
\<close>

definition log_Println :: "string \<Rightarrow> state \<Rightarrow> state" where
  "log_Println line s = s\<lparr>logs := logs s @ [line @ [lf]]\<rparr>"

definition log_Printf :: "string \<Rightarrow> state \<Rightarrow> state" where
  "log_Printf line s = s\<lparr>logs := logs s @ [line]\<rparr>"

text \<open>
  \<^verbatim>\<open>respondWithError\<close>. The encoder's output is written out for messages without
  characters that JSON escapes, which holds for every message the handlers pass.
\<close>

definition respondWithError ::
  "responseWriter \<Rightarrow> nat \<Rightarrow> string \<Rightarrow> string option \<Rightarrow> state \<Rightarrow> responseWriter \<times> state" where
  "respondWithError w statusCode message er s =
     (let logMsg = (case er of None \<Rightarrow> message | Some x \<Rightarrow> message @ '' - '' @ x);
          s1 = log_Println (''ERROR: '' @ logMsg) s;
          w1 = Header_Set ''Content-Type'' ''application/json'' w;
          w2 = WriteHeader statusCode w1;
          w3 = Write (''{'' @ quoted ''error'' @ '':'' @ quoted message @ ''}'' @ [lf]) w2
      in (w3, s1))"

type_synonym handler =
  "request \<Rightarrow> responseWriter \<Rightarrow> state \<Rightarrow> (responseWriter \<times> state) outcome"

definition handleHealth :: handler where
  "handleHealth r w s = Return (Write (''OK'' @ [lf]) (WriteHeader StatusOK w), s)"

definition handleReady :: handler where
  "handleReady r w s =
     (if checkReady s then Return (Write (''READY'' @ [lf]) (WriteHeader StatusOK w), s)
      else Return (Write (''NOT READY'' @ [lf]) (WriteHeader StatusServiceUnavailable w), s))"

subsection \<open>The submission handler\<close>

text \<open>Lines 177 to 197 of \<^verbatim>\<open>handlePost\<close>: the size cap, the optional gzip layer, the read.\<close>

datatype bodyRead = InvalidGzip string | ReadFailed string | BodyOk bytes

definition readBody :: "lib \<Rightarrow> request \<Rightarrow> bodyRead" where
  "readBody l r =
     (let rd = MaxBytesReader (Body r) maxBodySize in
      if Header_Get (Header r) ''Content-Encoding'' = ''gzip'' then
        (case gzip_decode l rd of
           GzHeaderErr x \<Rightarrow> InvalidGzip x
         | GzReadErr x \<Rightarrow> ReadFailed x
         | GzOk b \<Rightarrow> BodyOk b)
      else
        (case io_ReadAll rd of
           Inl x \<Rightarrow> ReadFailed x
         | Inr b \<Rightarrow> BodyOk b))"

text \<open>Lines 199 to 202: the address that goes into the file name.\<close>

definition clientAddress :: "lib \<Rightarrow> request \<Rightarrow> string + string" where
  "clientAddress l r =
     (case getClientIP l r of
        Inl msg \<Rightarrow> Inl msg
      | Inr cip \<Rightarrow>
          (let ip = sanitizeIP cip
           in if ip = [] then Inr ''unknown'' else Inr ip))"

text \<open>Lines 204 to 220: the extension, the file name, the full path and the job.\<close>

definition extOf :: "lib \<Rightarrow> bytes \<Rightarrow> string" where
  "extOf l body = (if \<not> json_Valid l body then ''.txt'' else ''.json'')"

definition fileName :: "lib \<Rightarrow> env \<Rightarrow> string \<Rightarrow> bytes \<Rightarrow> string" where
  "fileName l e ip body =
     (let timestamp = time_Format (now e);
          suffix = ''-'' @ itoa (rand_Intn e 10000)
      in ip @ ''-'' @ timestamp @ suffix @ extOf l body)"

definition buildRequest :: "lib \<Rightarrow> env \<Rightarrow> string \<Rightarrow> bytes \<Rightarrow> writeRequest" where
  "buildRequest l e ip body =
     (let filename = fileName l e ip body;
          fullPath = filepath_Join uploadDir filename
      in \<lparr>data = body, path = fullPath\<rparr>)"

text \<open>
  Lines 222 to 228: the \<^verbatim>\<open>select\<close>. The send can proceed when the channel buffer has
  room; the receive from \<^verbatim>\<open>Done()\<close> can proceed when the context is done. When both
  can, the runtime picks one; when neither can, the goroutine stays parked.
\<close>

datatype admission = Admitted | Cancelled

definition select_send :: "env \<Rightarrow> writeRequest \<Rightarrow> state \<Rightarrow> (admission \<times> state) outcome" where
  "select_send e req s =
     (let sendReady = (length (writeQueue s) < writeQueueCap);
          doneReady = ctxDone e
      in if sendReady \<and> doneReady then
           (if selectPick e then Return (Admitted, s\<lparr>writeQueue := writeQueue s @ [req]\<rparr>)
            else Return (Cancelled, s))
         else if sendReady then Return (Admitted, s\<lparr>writeQueue := writeQueue s @ [req]\<rparr>)
         else if doneReady then Return (Cancelled, s)
         else Blocked)"

definition invalidJSONStored :: bytes where
  "invalidJSONStored =
     ''Invalid JSON '' @
     [CHR 0xC3, CHR 0xA2, CHR 0xE2, CHR 0x82, CHR 0xAC, CHR 0xE2, CHR 0x80, CHR 0x9D] @
     '' stored as .txt'' @ [lf]"

definition handlePost :: "lib \<Rightarrow> env \<Rightarrow> handler" where
  "handlePost l e r w s =
     (if Method r \<noteq> MethodPost then
        Return (respondWithError w StatusMethodNotAllowed ''Only POST allowed'' None s)
      else
        (case readBody l r of
           InvalidGzip x \<Rightarrow> Return (respondWithError w StatusBadRequest ''Invalid gzip data'' (Some x) s)
         | ReadFailed x \<Rightarrow>
             Return (respondWithError w StatusBadRequest ''Failed to read request body'' (Some x) s)
         | BodyOk body \<Rightarrow>
             (case clientAddress l r of
                Inl msg \<Rightarrow> Panic msg (w, s)
              | Inr ip \<Rightarrow>
                  (case select_send e (buildRequest l e ip body) s of
                     Panic msg x \<Rightarrow> Panic msg (w, s)
                   | Blocked \<Rightarrow> Blocked
                   | Return (Cancelled, s1) \<Rightarrow>
                       Return (respondWithError w StatusRequestTimeout ''Request cancelled''
                                 (Some (ctxErr e)) s1)
                   | Return (Admitted, s1) \<Rightarrow>
                       (let w1 = WriteHeader StatusAccepted w
                        in if json_Valid l body then Return (Write (''JSON stored'' @ [lf]) w1, s1)
                           else Return (Write invalidJSONStored w1, s1))))))"

definition alivePayload :: bytes where
  "alivePayload = ''{'' @ quoted ''status'' @ '':'' @ quoted ''API is alive'' @ ''}''"

definition handleSubmit :: "lib \<Rightarrow> env \<Rightarrow> handler" where
  "handleSubmit l e r w s =
     (if Method r = MethodPost then handlePost l e r w s
      else if Method r = MethodGet then
        Return (Write alivePayload
                  (WriteHeader StatusOK (Header_Set ''Content-Type'' ''application/json'' w)), s)
      else Return (respondWithError w StatusMethodNotAllowed ''Only GET and POST allowed'' None s))"

subsection \<open>Middleware and routing\<close>

definition withCORS :: "handler \<Rightarrow> handler" where
  "withCORS next r w s =
     (let w1 = Header_Set ''Access-Control-Allow-Origin'' ''*'' w;
          w2 = Header_Set ''Access-Control-Allow-Methods'' ''GET, POST, OPTIONS'' w1;
          w3 = Header_Set ''Access-Control-Allow-Headers'' ''Content-Type, Authorization'' w2
      in if Method r = MethodOptions then Return (WriteHeader StatusNoContent w3, s)
         else next r w3 s)"

text \<open>
  \<^verbatim>\<open>withRecover\<close>: a panic of the inner handler is logged and answered by
  \<^verbatim>\<open>http.Error\<close> with status 500.
\<close>

definition http_Error :: "responseWriter \<Rightarrow> string \<Rightarrow> nat \<Rightarrow> responseWriter" where
  "http_Error w msg code =
     Write (msg @ [lf])
       (WriteHeader code
          (Header_Set ''X-Content-Type-Options'' ''nosniff''
             (Header_Set ''Content-Type'' ''text/plain; charset=utf-8'' w)))"

definition withRecover :: "handler \<Rightarrow> handler" where
  "withRecover next r w s =
     (case next r w s of
        Panic rec (w1, s1) \<Rightarrow>
          Return (http_Error w1 ''Internal Server Error'' StatusInternalServerError,
                  log_Printf (''PANIC: '' @ rec @ [lf]) s1)
      | Return x \<Rightarrow> Return x
      | Blocked \<Rightarrow> Blocked)"

definition withLogging :: "env \<Rightarrow> handler \<Rightarrow> handler" where
  "withLogging e next r w s =
     (case next r w s of
        Return (w1, s1) \<Rightarrow>
          Return (w1, log_Printf (Method r @ '' '' @ URLPath r @ '' '' @ elapsed e @ [lf]) s1)
      | Panic rec x \<Rightarrow> Panic rec x
      | Blocked \<Rightarrow> Blocked)"

text \<open>
  The handler that the mux of \<^verbatim>\<open>main\<close> can call for a request: the one registered for
  the two exact paths, the one of the subtree, or its own not-found answer. The mux of
  the library calls this handler or none: a request whose path is not in canonical form
  (an empty, \<open>.\<close> or \<open>..\<close> element) it answers with a redirect to the cleaned path, and it
  matches the path element by element. \<open>dispatch\<close> leaves the redirect out and matches
  the decoded path as a whole, so it runs a handler wherever the mux runs that handler,
  and in some cases where the mux runs none. For the requests marked by
  \<open>canonicalRequest\<close> below, the two agree.
\<close>

datatype route = RouteSubmit | RouteHealth | RouteReady | RouteNotFound

definition dispatch :: "request \<Rightarrow> route" where
  "dispatch r =
     (if URLPath r = ''/v1/collection'' \<or> take 15 (URLPath r) = ''/v1/collection/'' then RouteSubmit
      else if URLPath r = ''/v1/health'' then RouteHealth
      else if URLPath r = ''/v1/ready'' then RouteReady
      else RouteNotFound)"

definition mux :: "lib \<Rightarrow> env \<Rightarrow> handler" where
  "mux l e r w s =
     (case dispatch r of
        RouteSubmit \<Rightarrow> handleSubmit l e r w s
      | RouteHealth \<Rightarrow> handleHealth r w s
      | RouteReady \<Rightarrow> handleReady r w s
      | RouteNotFound \<Rightarrow> Return (http_Error w ''404 page not found'' 404, s))"

text \<open>The handler chain of \<^verbatim>\<open>main\<close>, and one request served by it to completion.\<close>

definition serverHandler :: "lib \<Rightarrow> env \<Rightarrow> handler" where
  "serverHandler l e = withRecover (withLogging e (withCORS (mux l e)))"

definition serve :: "lib \<Rightarrow> env \<Rightarrow> request \<Rightarrow> state \<Rightarrow> (responseWriter \<times> state) outcome" where
  "serve l e r s =
     (case serverHandler l e r newResponseWriter s of
        Return (w, s1) \<Rightarrow> Return (w, s1\<lparr>sent := sent s1 @ [w]\<rparr>)
      | Panic rec x \<Rightarrow> Panic rec x
      | Blocked \<Rightarrow> Blocked)"

subsection \<open>Files, the buffer pool and the buffered writer\<close>

text \<open>
  The faults the operating system may answer with during one write job: the error of
  \<^verbatim>\<open>os.Create\<close>, and the error of the file's \<^verbatim>\<open>Write\<close> with the number of bytes that
  reached the file before it.
\<close>

record iofaults =
  createErr :: "string option"
  writeErr :: "(nat \<times> string) option"

text \<open>\<^verbatim>\<open>os.Create\<close>: the file is created or truncated, and a handle on it is open.\<close>

definition os_Create :: "iofaults \<Rightarrow> string \<Rightarrow> state \<Rightarrow> (string + string) \<times> state" where
  "os_Create io p s =
     (case createErr io of
        Some x \<Rightarrow> (Inl x, s)
      | None \<Rightarrow> (Inr p, s\<lparr>files := (files s)(p \<mapsto> []), openFiles := p # openFiles s\<rparr>))"

definition file_Close :: "string \<Rightarrow> state \<Rightarrow> state" where
  "file_Close f s = s\<lparr>openFiles := remove1 f (openFiles s)\<rparr>"

definition contents :: "state \<Rightarrow> string \<Rightarrow> bytes" where
  "contents s f = (case files s f of None \<Rightarrow> [] | Some c \<Rightarrow> c)"

text \<open>
  The file's \<^verbatim>\<open>Write\<close>: all bytes are appended and the count returned, or an error
  comes back with the count of bytes appended before it. A writer without target
  (the pool's fresh writer before \<^verbatim>\<open>Reset\<close>) has nothing to write to.
\<close>

definition file_Write ::
  "iofaults \<Rightarrow> string option \<Rightarrow> bytes \<Rightarrow> state \<Rightarrow> (nat \<times> string option) \<times> state" where
  "file_Write io target p s =
     (case target of
        None \<Rightarrow> ((0, Some ''invalid argument''), s)
      | Some f \<Rightarrow>
          (case writeErr io of
             None \<Rightarrow> ((length p, None), s\<lparr>files := (files s)(f \<mapsto> contents s f @ p)\<rparr>)
           | Some (n, x) \<Rightarrow>
               ((min n (length p), Some x),
                s\<lparr>files := (files s)(f \<mapsto> contents s f @ take n p)\<rparr>)))"

definition bufferSize :: nat where
  "bufferSize = 4096"

definition bufferPool_New :: bufioWriter where
  "bufferPool_New = \<lparr>wr = None, buf = [], err = None\<rparr>"

definition bufferPool_Get :: "state \<Rightarrow> bufioWriter \<times> state" where
  "bufferPool_Get s =
     (case poolIdle s of
        [] \<Rightarrow> (bufferPool_New, s\<lparr>poolBorrowed := poolBorrowed s + 1\<rparr>)
      | b # bs \<Rightarrow> (b, s\<lparr>poolIdle := bs, poolBorrowed := poolBorrowed s + 1\<rparr>))"

definition bufferPool_Put :: "bufioWriter \<Rightarrow> state \<Rightarrow> state" where
  "bufferPool_Put b s = s\<lparr>poolIdle := b # poolIdle s, poolBorrowed := poolBorrowed s - 1\<rparr>"

definition bufio_Reset :: "bufioWriter \<Rightarrow> string \<Rightarrow> bufioWriter" where
  "bufio_Reset b f = b\<lparr>wr := Some f, buf := [], err := None\<rparr>"

definition Available :: "bufioWriter \<Rightarrow> nat" where
  "Available b = bufferSize - length (buf b)"

definition Buffered :: "bufioWriter \<Rightarrow> nat" where
  "Buffered b = length (buf b)"

text \<open>\<^verbatim>\<open>(*bufio.Writer).Flush\<close>.\<close>

definition bufio_Flush ::
  "iofaults \<Rightarrow> bufioWriter \<Rightarrow> state \<Rightarrow> string option \<times> bufioWriter \<times> state" where
  "bufio_Flush io b s =
     (if err b \<noteq> None then (err b, b, s)
      else if Buffered b = 0 then (None, b, s)
      else
        (case file_Write io (wr b) (buf b) s of
           ((n, x), s1) \<Rightarrow>
             (let x1 = (if n < Buffered b \<and> x = None then Some ''short write'' else x)
              in if x1 \<noteq> None then (x1, b\<lparr>buf := drop n (buf b), err := x1\<rparr>, s1)
                 else (None, b\<lparr>buf := []\<rparr>, s1))))"

text \<open>
  \<^verbatim>\<open>(*bufio.Writer).Write\<close>: while the data does not fit, an empty buffer is
  bypassed and a filled one is flushed; what is left is copied into the buffer.
\<close>

function bufio_Write_loop ::
  "iofaults \<Rightarrow> bytes \<Rightarrow> bufioWriter \<Rightarrow> state \<Rightarrow> bytes \<times> bufioWriter \<times> state" where
  "bufio_Write_loop io p b s =
     (if Available b < length p \<and> err b = None then
        (if Buffered b = 0 then
           (case file_Write io (wr b) p s of
              ((n, x), s1) \<Rightarrow> bufio_Write_loop io (drop n p) (b\<lparr>err := x\<rparr>) s1)
         else
           (case bufio_Flush io (b\<lparr>buf := buf b @ take (Available b) p\<rparr>) s of
              (x, b1, s1) \<Rightarrow> bufio_Write_loop io (drop (Available b) p) b1 s1))
      else (p, b, s))"
  by pat_completeness auto
termination
  by (relation "measure (\<lambda>(io, p, b, s).
          if err b \<noteq> None then 0 else 2 * length p + (if buf b = [] then 1 else 2))")
     (auto simp: file_Write_def bufio_Flush_def Buffered_def Available_def bufferSize_def Let_def
           split: option.splits if_splits prod.splits)

declare bufio_Write_loop.simps [simp del]

definition bufio_Write ::
  "iofaults \<Rightarrow> bytes \<Rightarrow> bufioWriter \<Rightarrow> state \<Rightarrow> string option \<times> bufioWriter \<times> state" where
  "bufio_Write io p b s =
     (case bufio_Write_loop io p b s of
        (p1, b1, s1) \<Rightarrow>
          if err b1 \<noteq> None then (err b1, b1, s1)
          else (None, b1\<lparr>buf := buf b1 @ p1\<rparr>, s1))"

subsection \<open>The write path\<close>

text \<open>
  The body of \<^verbatim>\<open>writeToFile\<close> between the second \<^verbatim>\<open>defer\<close> and the return, on the
  writer just reset.
\<close>

definition writeToFile_body ::
  "iofaults \<Rightarrow> bytes \<Rightarrow> string \<Rightarrow> bufioWriter \<Rightarrow> state \<Rightarrow> bufioWriter \<times> state" where
  "writeToFile_body io dat pth b s =
     (case bufio_Write io dat b s of
        (Some x, b1, s1) \<Rightarrow>
          (b1, log_Printf (''ERROR: Failed to write to file '' @ pth @ '': '' @ x @ [lf]) s1)
      | (None, b1, s1) \<Rightarrow>
          (case bufio_Flush io b1 s1 of
             (Some x, b2, s2) \<Rightarrow>
               (b2, log_Printf (''ERROR: Failed to flush buffer for file '' @ pth @ '': '' @ x @ [lf]) s2)
           | (None, b2, s2) \<Rightarrow> (b2, s2)))"

text \<open>
  \<^verbatim>\<open>writeToFile\<close>. The deferred calls run at every return after their \<^verbatim>\<open>defer\<close>, last
  deferred first: \<^verbatim>\<open>bufferPool.Put(buf)\<close>, then \<^verbatim>\<open>f.Close()\<close>.
\<close>

definition writeToFile :: "iofaults \<Rightarrow> bytes \<Rightarrow> string \<Rightarrow> state \<Rightarrow> state" where
  "writeToFile io dat pth s =
     (case os_Create io pth s of
        (Inl x, s1) \<Rightarrow>
          log_Printf (''ERROR: Failed to create file '' @ pth @ '': '' @ x @ [lf]) s1
      | (Inr f, s1) \<Rightarrow>
          (case bufferPool_Get s1 of
             (b, s2) \<Rightarrow>
               (case writeToFile_body io dat pth (bufio_Reset b f) s2 of
                  (b1, s3) \<Rightarrow> file_Close f (bufferPool_Put b1 s3))))"

text \<open>
  One turn of the loop of \<^verbatim>\<open>fileWriterWorker\<close>: the receive parks the worker on an
  empty channel, and takes the oldest job otherwise.
\<close>

definition fileWriterWorker :: "iofaults \<Rightarrow> state \<Rightarrow> state outcome" where
  "fileWriterWorker io s =
     (case writeQueue s of
        [] \<Rightarrow> Blocked
      | req # rest \<Rightarrow> Return (writeToFile io (data req) (path req) (s\<lparr>writeQueue := rest\<rparr>)))"

subsection \<open>Start-up and the running process\<close>

datatype event = EvMkdirAll | EvGoWorker | EvSetReady bool | EvListenAndServe | EvFatal

record process =
  st :: state
  workers :: nat
  listening :: bool
  exited :: bool
  events :: "event list"

text \<open>The outcomes of the two start-up calls that can fail.\<close>

record startup =
  mkdirErr :: "string option"
  listenErr :: "string option"

text \<open>The package-level variables at process start, over the file system found.\<close>

definition initial :: "(string \<rightharpoonup> bytes) \<Rightarrow> process" where
  "initial fs =
     \<lparr>st = \<lparr>writeQueue = [], isReady = False, files = fs, openFiles = [], poolIdle = [],
            poolBorrowed = 0, logs = [], sent = []\<rparr>,
      workers = 0, listening = False, exited = False, events = []\<rparr>"

definition log_Fatalf :: "string \<Rightarrow> process \<Rightarrow> process" where
  "log_Fatalf line p =
     p\<lparr>st := log_Printf (line @ [lf]) (st p), exited := True, events := events p @ [EvFatal]\<rparr>"

definition goWorker :: "process \<Rightarrow> process" where
  "goWorker p = p\<lparr>workers := workers p + 1, events := events p @ [EvGoWorker]\<rparr>"

text \<open>
  \<^verbatim>\<open>main\<close>, up to the point where \<^verbatim>\<open>ListenAndServe\<close> has bound the listener and
  serves, or has returned its error.
\<close>

definition main :: "startup \<Rightarrow> process \<Rightarrow> process" where
  "main su p =
     (let p1 = p\<lparr>events := events p @ [EvMkdirAll]\<rparr> in
      case mkdirErr su of
        Some x \<Rightarrow> log_Fatalf (''Failed to create upload directory: '' @ x) p1
      | None \<Rightarrow>
          (let p2 = fold (\<lambda>i q. goWorker q) [0..<workerCount] p1;
               p3 = p2\<lparr>st := log_Println ''Listening on :8989'' (st p2)\<rparr>;
               p4 = p3\<lparr>st := setReady True (st p3), events := events p3 @ [EvSetReady True]\<rparr>;
               p5 = p4\<lparr>events := events p4 @ [EvListenAndServe]\<rparr>
           in case listenErr su of
                Some x \<Rightarrow> log_Fatalf (''Server error: '' @ x) p5
              | None \<Rightarrow> p5\<lparr>listening := True\<rparr>))"

text \<open>
  The steps of the running process: a request is served to completion by the handler
  chain once the listener is bound, or a worker takes a job and writes it. A handler
  touches the shared state only in its \<^verbatim>\<open>select\<close>, so serving one request is one step
  taken at that moment, and a request parked there takes no step; the write of one job is
  one step as well. The environment of each step is arbitrary.
\<close>

inductive step :: "lib \<Rightarrow> process \<Rightarrow> process \<Rightarrow> bool" for l :: lib where
  request: "listening p \<Longrightarrow> \<not> exited p \<Longrightarrow> serve l e r (st p) = Return (w, s1)
            \<Longrightarrow> step l p (p\<lparr>st := s1\<rparr>)"
| worker: "0 < workers p \<Longrightarrow> \<not> exited p \<Longrightarrow> fileWriterWorker io (st p) = Return s1
           \<Longrightarrow> step l p (p\<lparr>st := s1\<rparr>)"

inductive reachable :: "lib \<Rightarrow> process \<Rightarrow> bool" for l :: lib where
  start: "reachable l (initial fs)"
| booted: "reachable l (main su (initial fs))"
| next_step: "reachable l p \<Longrightarrow> step l p q \<Longrightarrow> reachable l q"

subsection \<open>Predicates used in the statements\<close>

text \<open>The status a call answered with, when it returned.\<close>

definition statusOf :: "(responseWriter \<times> state) outcome \<Rightarrow> nat option" where
  "statusOf x = (case x of Return (w, s) \<Rightarrow> wStatus w | Panic m y \<Rightarrow> None | Blocked \<Rightarrow> None)"

text \<open>The state a call left behind, when it returned.\<close>

definition stateOf :: "(responseWriter \<times> state) outcome \<Rightarrow> state option" where
  "stateOf x = (case x of Return (w, s) \<Rightarrow> Some s | Panic m y \<Rightarrow> None | Blocked \<Rightarrow> None)"

text \<open>
  A path in canonical form: it begins with a slash, and between its slashes there is no
  empty element, other than after a slash that ends the path, and no \<open>.\<close> or \<open>..\<close>
  element. A canonical request: its path holds no percent escape, so that the escaped and
  the decoded path are the same, and is in canonical form.
\<close>

definition canonicalPath :: "string \<Rightarrow> bool" where
  "canonicalPath p =
     (case strings_Split p (CHR ''/'') of
        [] \<Rightarrow> False
      | first # elems \<Rightarrow>
          first = [] \<and> elems \<noteq> [] \<and>
          list_all (\<lambda>x. x \<noteq> [] \<and> x \<noteq> ''.'' \<and> x \<noteq> ''..'') (butlast elems) \<and>
          last elems \<noteq> ''.'' \<and> last elems \<noteq> ''..'')"

definition canonicalRequest :: "request \<Rightarrow> bool" where
  "canonicalRequest r \<longleftrightarrow>
     EscapedPath r = URLPath r \<and> CHR ''%'' \<notin> set (URLPath r) \<and> canonicalPath (URLPath r)"

text \<open>
  The second state agrees with the first on everything but the queue and the log; and
  on everything but the log.
\<close>

definition handlerFrame :: "state \<Rightarrow> state \<Rightarrow> bool" where
  "handlerFrame s s' \<longleftrightarrow>
     isReady s' = isReady s \<and> files s' = files s \<and> openFiles s' = openFiles s \<and>
     poolIdle s' = poolIdle s \<and> poolBorrowed s' = poolBorrowed s \<and> sent s' = sent s"

definition sameButLogs :: "state \<Rightarrow> state \<Rightarrow> bool" where
  "sameButLogs s s' \<longleftrightarrow> handlerFrame s s' \<and> writeQueue s' = writeQueue s"

text \<open>
  The request was admitted: a POST whose body was read, with room in the queue and the
  send picked, and the job built from it is the one new entry at the tail of the queue.
\<close>

definition admitted :: "lib \<Rightarrow> env \<Rightarrow> request \<Rightarrow> state \<Rightarrow> state \<Rightarrow> bool" where
  "admitted l e r s s' \<longleftrightarrow>
     Method r = MethodPost \<and>
     (\<exists>body ip. readBody l r = BodyOk body \<and> clientAddress l r = Inr ip \<and>
        length (writeQueue s) < writeQueueCap \<and> (ctxDone e \<longrightarrow> selectPick e) \<and>
        writeQueue s' = writeQueue s @ [buildRequest l e ip body])"

text \<open>
  What a handler of the chain does to the state: a status is set, the queue grows by the
  admitted job exactly when the status is 202, and only the log changes besides.
\<close>

definition effect :: "lib \<Rightarrow> env \<Rightarrow> request \<Rightarrow> responseWriter \<Rightarrow> state \<Rightarrow> state \<Rightarrow> bool" where
  "effect l e r w' s s' \<longleftrightarrow>
     handlerFrame s s' \<and> wStatus w' \<noteq> None \<and>
     (if wStatus w' = Some StatusAccepted then admitted l e r s s'
      else writeQueue s' = writeQueue s)"

text \<open>No slash, no backslash and no colon: a single path element on every platform.\<close>

definition pathSafe :: "string \<Rightarrow> bool" where
  "pathSafe s \<longleftrightarrow> CHR ''/'' \<notin> set s \<and> CHR '':'' \<notin> set s \<and> CHR 0x5C \<notin> set s"

text \<open>A path that names a file directly inside the upload directory.\<close>

definition directChild :: "string \<Rightarrow> bool" where
  "directChild p \<longleftrightarrow> take 8 p = ''uploads/'' \<and> drop 8 p \<noteq> [] \<and> pathSafe (drop 8 p)"

text \<open>
  The decompressor reports success only when its input ended cleanly: a read error of
  the underlying reader is never swallowed.
\<close>

definition gzipReadsToEnd :: "lib \<Rightarrow> bool" where
  "gzipReadsToEnd l \<longleftrightarrow> (\<forall>rd b. failsAtEnd rd \<longrightarrow> gzip_decode l rd \<noteq> GzOk b)"

text \<open>No file-system fault during a write job.\<close>

definition noFault :: "iofaults \<Rightarrow> bool" where
  "noFault io \<longleftrightarrow> createErr io = None \<and> writeErr io = None"

subsection \<open>Example inputs\<close>

text \<open>
  Stand-ins for the library functions, agreeing with the library on the inputs of the
  examples below: the one JSON document used, addresses of the form host:port, and
  padding by blanks. The gzip stand-in rejects the header of a stream that does not
  begin with the two magic bytes of gzip, as the library does; it is used on no other
  stream here and decompresses nothing.
\<close>

definition exampleJSON :: bytes where
  "exampleJSON = ''{'' @ quoted ''a'' @ '':1}''"

definition exampleLib :: lib where
  "exampleLib =
     \<lparr>json_Valid = (\<lambda>b. b = exampleJSON),
      gzip_decode = (\<lambda>rd. if take 2 (avail rd) = [CHR 0x1F, CHR 0x8B]
                           then GzReadErr ''unexpected EOF''
                           else GzHeaderErr ''gzip: invalid header''),
      net_SplitHostPort =
        (\<lambda>a. if CHR '':'' \<in> set a then Some (takeWhile (\<lambda>c. c \<noteq> CHR '':'') a) else None),
      strings_TrimSpace =
        (\<lambda>x. rev (dropWhile (\<lambda>c. c = CHR '' '') (rev (dropWhile (\<lambda>c. c = CHR '' '') x))))\<rparr>"

definition exampleTime :: gotime where
  "exampleTime = \<lparr>year = 2024, month = 3, day = 9, hour = 7, minute = 5, second = 1,
                   nanosecond = 42\<rparr>"

definition exampleEnv :: env where
  "exampleEnv = \<lparr>now = exampleTime, randDraw = 77, ctxDone = False, ctxErr = [],
                  selectPick = True, elapsed = ''1ms''\<rparr>"

text \<open>The client has gone away, and the runtime picks the receive from \<^verbatim>\<open>Done()\<close>.\<close>

definition cancelledEnv :: env where
  "cancelledEnv = exampleEnv\<lparr>ctxDone := True, ctxErr := ''context canceled'', selectPick := False\<rparr>"

definition examplePost :: request where
  "examplePost = \<lparr>Method = ''POST'', URLPath = ''/v1/collection'',
                   EscapedPath = ''/v1/collection'', Header = Map.empty,
                   RemoteAddr = ''10.0.0.1:5555'', Body = exampleJSON\<rparr>"

definition exampleOptions :: request where
  "exampleOptions = examplePost\<lparr>Method := ''OPTIONS'', Body := []\<rparr>"

text \<open>A forwarded-for header line that is present and has an empty value.\<close>

definition emptyForwarded :: request where
  "emptyForwarded = examplePost\<lparr>Header := [''X-Forwarded-For'' \<mapsto> [[]]]\<rparr>"

definition forwardedPost :: request where
  "forwardedPost = examplePost\<lparr>Header := [''X-Forwarded-For'' \<mapsto> ['' ../../etc, 10.1.1.1'']]\<rparr>"

text \<open>A request without forwarded-for header whose peer address cannot be split.\<close>

definition noAddressPost :: request where
  "noAddressPost = examplePost\<lparr>Header := (Header examplePost)(''X-Forwarded-For'' := None),
                                RemoteAddr := []\<rparr>"

text \<open>The process after a start-up without failure, and one whose listener cannot bind.\<close>

definition exampleProcess :: process where
  "exampleProcess = main \<lparr>mkdirErr = None, listenErr = None\<rparr> (initial Map.empty)"

definition exampleState :: state where
  "exampleState = st exampleProcess"

definition bindFailure :: startup where
  "bindFailure = \<lparr>mkdirErr = None, listenErr = Some ''listen tcp :8989: bind: address already in use''\<rparr>"

definition mkdirFailure :: startup where
  "mkdirFailure = \<lparr>mkdirErr = Some ''mkdir ./uploads: permission denied'', listenErr = None\<rparr>"

definition exampleProbe :: request where
  "exampleProbe = \<lparr>Method = ''GET'', URLPath = ''/v1/ready'',
                    EscapedPath = ''/v1/ready'', Header = Map.empty,
                    RemoteAddr = ''10.0.0.1:5555'', Body = []\<rparr>"

text \<open>A body one byte longer than the cap, sent plain and sent with the gzip marker.\<close>

definition oversizedPost :: request where
  "oversizedPost = examplePost\<lparr>Body := replicate (maxBodySize + 1) (CHR ''a'')\<rparr>"

definition oversizedGzip :: request where
  "oversizedGzip = oversizedPost\<lparr>Header := [''Content-Encoding'' \<mapsto> [''gzip'']]\<rparr>"

definition examplePut :: request where
  "examplePut = examplePost\<lparr>Method := ''PUT''\<rparr>"

text \<open>A PUT below the subtree of the submission route.\<close>

definition subtreePut :: request where
  "subtreePut = examplePost\<lparr>Method := ''PUT'', URLPath := ''/v1/collection/logs/a.json'',
                             EscapedPath := ''/v1/collection/logs/a.json''\<rparr>"

definition exampleGet :: request where
  "exampleGet = examplePost\<lparr>Method := ''GET'', Body := []\<rparr>"

definition exampleIO :: iofaults where
  "exampleIO = \<lparr>createErr = None, writeErr = None\<rparr>"

text \<open>The disk fills up after three bytes of a write.\<close>

definition failingIO :: iofaults where
  "failingIO = \<lparr>createErr = None, writeErr = Some (3, ''no space left on device'')\<rparr>"

definition exampleJob :: writeRequest where
  "exampleJob = \<lparr>data = exampleJSON, path = ''uploads/10.0.0.1-x-1.json''\<rparr>"

text \<open>
  A gzip request whose compressed body is well within the cap and whose decompressed form
  is longer than the cap. The body is one gzip member: the ten-byte header, one DEFLATE
  block with the fixed Huffman codes holding the literal byte 0 followed by 40648 matches
  of length 258 at distance 1 (thirteen bits each, so thirteen bytes for every eight of
  them) and the end-of-block code, then CRC-32 and length. It is 66074 bytes long and
  decompresses to 10487185 zero bytes. The decoder of \<open>bombLib\<close> returns that
  decompression for this stream and is the stand-in above for every other.
\<close>

definition gzipHeader :: bytes where
  "gzipHeader = [CHR 0x1F, CHR 0x8B, CHR 0x08, CHR 0x00, CHR 0x00, CHR 0x00, CHR 0x00,
                 CHR 0x00, CHR 0x00, CHR 0x03]"

definition bombPattern :: bytes where
  "bombPattern = [CHR 0x05, CHR 0xA3, CHR 0x60, CHR 0x14, CHR 0x8C, CHR 0x82, CHR 0x51,
                  CHR 0x30, CHR 0x0A, CHR 0x46, CHR 0xC1, CHR 0x28, CHR 0x18]"

definition bombBody :: bytes where
  "bombBody =
     gzipHeader @ [CHR 0x63, CHR 0x18] @ concat (replicate 5080 bombPattern) @
     [CHR 0x05, CHR 0xA3, CHR 0x60, CHR 0x14, CHR 0x8C, CHR 0x82, CHR 0x51, CHR 0x30,
      CHR 0x0A, CHR 0x46, CHR 0xC1, CHR 0x28, CHR 0x00, CHR 0x00] @
     [CHR 0xE8, CHR 0xCA, CHR 0x73, CHR 0xCC, CHR 0x91, CHR 0x05, CHR 0xA0, CHR 0x00]"

definition bombPayload :: bytes where
  "bombPayload = replicate 10487185 (CHR 0x00)"

definition bombLib :: lib where
  "bombLib = exampleLib\<lparr>gzip_decode :=
     (\<lambda>rd. if avail rd = bombBody \<and> \<not> failsAtEnd rd then GzOk bombPayload
            else gzip_decode exampleLib rd)\<rparr>"

definition bombRequest :: request where
  "bombRequest = examplePost\<lparr>Header := [''Content-Encoding'' \<mapsto> [''gzip'']], Body := bombBody\<rparr>"

text \<open>
  The address as the specification words it: the header's first entry whenever the
  header is present, the peer address otherwise.
\<close>

definition spec_clientAddress :: "lib \<Rightarrow> request \<Rightarrow> string" where
  "spec_clientAddress l r =
     (let a = (case Header r ''X-Forwarded-For'' of
                 Some vs \<Rightarrow>
                   strings_TrimSpace l (takeWhile (\<lambda>c. c \<noteq> CHR '','') (Header_Get (Header r) ''X-Forwarded-For''))
               | None \<Rightarrow>
                   (case net_SplitHostPort l (RemoteAddr r) of None \<Rightarrow> [] | Some h \<Rightarrow> h));
          ip = sanitizeIP a
      in if ip = [] then ''unknown'' else ip)"

section \<open>Properties\<close>

subsection \<open>Strings and paths\<close>

lemma strings_Split_nonempty: "strings_Split s c \<noteq> []"
  by (induction s) (auto split: list.splits)

lemma strings_Split_hd: "hd (strings_Split s c) = takeWhile (\<lambda>x. x \<noteq> c) s"
  by (induction s) (auto split: list.splits simp: strings_Split_nonempty)

lemma strings_Split_single: "c \<notin> set s \<Longrightarrow> strings_Split s c = [s]"
  by (induction s) auto

lemma getClientIP_total: "\<exists>a. getClientIP l r = Inr a"
  by (auto simp: getClientIP_def Let_def strings_Split_nonempty split: list.splits option.splits)

lemma sanitizeIP_map:
  "sanitizeIP ip =
     map (\<lambda>c. if c = CHR '':'' \<or> c = CHR ''/'' \<or> c = CHR 0x5C then CHR ''_'' else c) ip"
  by (simp add: sanitizeIP_def strings_ReplaceAll_def Let_def)

lemma digit_in: "d < 10 \<Longrightarrow> ''0123456789'' ! d \<in> set ''0123456789''"
  by (rule nth_mem) simp

lemma itoa_digits: "set (itoa n) \<subseteq> set ''0123456789''"
proof (induction n rule: itoa.induct)
  case (1 n)
  show ?case
  proof (cases "n < 10")
    case True
    then have "itoa n = [''0123456789'' ! n]" by (subst itoa.simps) simp
    with digit_in[OF True] show ?thesis by simp
  next
    case False
    have m: "n mod 10 < 10" by simp
    from False have "itoa n = itoa (n div 10) @ [''0123456789'' ! (n mod 10)]"
      by (subst itoa.simps) simp
    with 1[OF False] digit_in[OF m] show ?thesis by simp
  qed
qed

lemma pathSafe_Nil: "pathSafe []"
  by (simp add: pathSafe_def)

lemma pathSafe_Cons:
  "pathSafe (c # s) \<longleftrightarrow> c \<noteq> CHR ''/'' \<and> c \<noteq> CHR '':'' \<and> c \<noteq> CHR 0x5C \<and> pathSafe s"
  by (auto simp: pathSafe_def)

lemma pathSafe_append: "pathSafe (a @ b) \<longleftrightarrow> pathSafe a \<and> pathSafe b"
  by (auto simp: pathSafe_def)

lemma pathSafe_replicate: "pathSafe (replicate n (CHR ''0''))"
  by (simp add: pathSafe_def)

lemmas pathSafe_simps = pathSafe_Nil pathSafe_Cons pathSafe_append pathSafe_replicate

lemma pathSafe_itoa: "pathSafe (itoa n)"
proof -
  have "pathSafe ''0123456789''" by (simp add: pathSafe_def)
  then show ?thesis using itoa_digits[of n] unfolding pathSafe_def by blast
qed

lemma pathSafe_appendInt: "pathSafe (appendInt x w)"
  by (simp add: appendInt_def Let_def pathSafe_simps pathSafe_itoa)

lemma pathSafe_time_Format: "pathSafe (time_Format t)"
  by (simp add: time_Format_def pathSafe_simps pathSafe_appendInt)

lemma pathSafe_sanitizeIP: "pathSafe (sanitizeIP ip)"
  by (auto simp: sanitizeIP_map pathSafe_def)

lemma pathSafe_extOf: "pathSafe (extOf l b)"
  by (simp add: extOf_def pathSafe_simps)

lemma pathSafe_fileName: "pathSafe ip \<Longrightarrow> pathSafe (fileName l e ip b)"
  by (simp add: fileName_def Let_def pathSafe_simps pathSafe_time_Format pathSafe_itoa pathSafe_extOf)

lemma fileName_has_dash: "CHR ''-'' \<in> set (fileName l e ip b)"
  by (simp add: fileName_def Let_def)

lemma join_upload:
  assumes "CHR ''/'' \<notin> set fn" and "CHR ''-'' \<in> set fn"
  shows "filepath_Join uploadDir fn = ''uploads/'' @ fn"
proof -
  from assms(2) have ne: "fn \<noteq> []" "fn \<noteq> ''.''" "fn \<noteq> ''..''" by auto
  have sp: "strings_Split (''./uploads/'' @ fn) (CHR ''/'') = [''.'', ''uploads'', fn]"
    using strings_Split_single[OF assms(1)] by simp
  have "filepath_Join uploadDir fn = filepath_Clean (''./uploads/'' @ fn)"
    by (simp add: filepath_Join_def uploadDir_def)
  also have "\<dots> = ''uploads/'' @ fn"
    unfolding filepath_Clean_def sp using ne by simp
  finally show ?thesis .
qed

subsection \<open>What the handlers do to the state\<close>

lemmas status_defs = StatusOK_def StatusAccepted_def StatusNoContent_def StatusBadRequest_def
  StatusMethodNotAllowed_def StatusRequestTimeout_def StatusInternalServerError_def
  StatusServiceUnavailable_def

lemmas writer_defs = Header_Set_def WriteHeader_def Write_def

lemma respondWithError_status:
  "wStatus w = None \<Longrightarrow> wStatus (fst (respondWithError w c m er s)) = Some c"
  by (simp add: respondWithError_def writer_defs Let_def)

lemma respondWithError_state:
  "snd (respondWithError w c m er s) =
     s\<lparr>logs := logs s @ [''ERROR: '' @ (case er of None \<Rightarrow> m | Some x \<Rightarrow> m @ '' - '' @ x) @ [lf]]\<rparr>"
  by (simp add: respondWithError_def log_Println_def Let_def)

lemma respondWithError_same: "sameButLogs s (snd (respondWithError w c m er s))"
  by (simp add: respondWithError_state sameButLogs_def handlerFrame_def)

lemma select_send_cases:
  "select_send e req s = Return (Admitted, s\<lparr>writeQueue := writeQueue s @ [req]\<rparr>)
     \<and> length (writeQueue s) < writeQueueCap \<and> (ctxDone e \<longrightarrow> selectPick e)
   \<or> select_send e req s = Return (Cancelled, s) \<and> ctxDone e
        \<and> (length (writeQueue s) < writeQueueCap \<longrightarrow> \<not> selectPick e)
   \<or> select_send e req s = Blocked \<and> \<not> ctxDone e \<and> \<not> length (writeQueue s) < writeQueueCap"
  by (simp add: select_send_def Let_def)

lemma clientAddress_total: "\<exists>ip. clientAddress l r = Inr ip"
  using getClientIP_total[of l r] by (auto simp: clientAddress_def Let_def)

lemma handlePost_Return:
  assumes w: "wStatus w = None" and h: "handlePost l e r w s = Return (w', s')"
  shows "(wStatus w' = Some StatusAccepted \<and> Method r = MethodPost \<and>
          (\<exists>body ip. readBody l r = BodyOk body \<and> clientAddress l r = Inr ip \<and>
             length (writeQueue s) < writeQueueCap \<and> (ctxDone e \<longrightarrow> selectPick e) \<and>
             s' = s\<lparr>writeQueue := writeQueue s @ [buildRequest l e ip body]\<rparr>))
       \<or> (wStatus w' = Some StatusMethodNotAllowed \<and> Method r \<noteq> MethodPost \<and>
            sameButLogs s s' )
       \<or> (wStatus w' = Some StatusBadRequest \<and> Method r = MethodPost \<and>
            (\<forall>b. readBody l r \<noteq> BodyOk b) \<and> sameButLogs s s' )
       \<or> (wStatus w' = Some StatusRequestTimeout \<and> Method r = MethodPost \<and> ctxDone e \<and>
            sameButLogs s s' )"
proof (cases "Method r = MethodPost")
  case False
  with h have "(w', s') = respondWithError w StatusMethodNotAllowed ''Only POST allowed'' None s"
    by (simp add: handlePost_def)
  then have "w' = fst (respondWithError w StatusMethodNotAllowed ''Only POST allowed'' None s)"
    and "s' = snd (respondWithError w StatusMethodNotAllowed ''Only POST allowed'' None s)"
    by (metis fst_conv, metis snd_conv)
  with False w show ?thesis
    by (simp add: respondWithError_status respondWithError_same)
next
  case True
  show ?thesis
  proof (cases "readBody l r")
    case (InvalidGzip x)
    with h True have "(w', s') = respondWithError w StatusBadRequest ''Invalid gzip data'' (Some x) s"
      by (simp add: handlePost_def)
    then have "w' = fst (respondWithError w StatusBadRequest ''Invalid gzip data'' (Some x) s)"
      and "s' = snd (respondWithError w StatusBadRequest ''Invalid gzip data'' (Some x) s)"
      by (metis fst_conv, metis snd_conv)
    with True w InvalidGzip show ?thesis
      by (simp add: respondWithError_status respondWithError_same)
  next
    case (ReadFailed x)
    with h True have "(w', s') = respondWithError w StatusBadRequest ''Failed to read request body'' (Some x) s"
      by (simp add: handlePost_def)
    then have "w' = fst (respondWithError w StatusBadRequest ''Failed to read request body'' (Some x) s)"
      and "s' = snd (respondWithError w StatusBadRequest ''Failed to read request body'' (Some x) s)"
      by (metis fst_conv, metis snd_conv)
    with True w ReadFailed show ?thesis
      by (simp add: respondWithError_status respondWithError_same)
  next
    case (BodyOk body)
    obtain ip where ip: "clientAddress l r = Inr ip" using clientAddress_total by blast
    let ?req = "buildRequest l e ip body"
    from select_send_cases[of e ?req s] show ?thesis
    proof (elim disjE conjE)
      assume a: "select_send e ?req s = Return (Admitted, s\<lparr>writeQueue := writeQueue s @ [?req]\<rparr>)"
        and c: "length (writeQueue s) < writeQueueCap" and d: "ctxDone e \<longrightarrow> selectPick e"
      from h True BodyOk ip a w have "wStatus w' = Some StatusAccepted"
        and "s' = s\<lparr>writeQueue := writeQueue s @ [?req]\<rparr>"
        by (auto simp: handlePost_def writer_defs Let_def split: if_splits)
      with True BodyOk ip c d show ?thesis by simp
    next
      assume a: "select_send e ?req s = Return (Cancelled, s)" and d: "ctxDone e"
      from h True BodyOk ip a
      have "(w', s') = respondWithError w StatusRequestTimeout ''Request cancelled'' (Some (ctxErr e)) s"
        by (simp add: handlePost_def)
      then have "w' = fst (respondWithError w StatusRequestTimeout ''Request cancelled'' (Some (ctxErr e)) s)"
        and "s' = snd (respondWithError w StatusRequestTimeout ''Request cancelled'' (Some (ctxErr e)) s)"
        by (metis fst_conv, metis snd_conv)
      with True w d show ?thesis
        by (simp add: respondWithError_status respondWithError_same)
    next
      assume "select_send e ?req s = Blocked"
      with h True BodyOk ip show ?thesis by (simp add: handlePost_def)
    qed
  qed
qed


lemma select_send_no_Panic: "select_send e req s \<noteq> Panic m x"
  by (simp add: select_send_def Let_def)

lemma handlePost_no_Panic: "handlePost l e r w s \<noteq> Panic m x"
proof -
  obtain ip where ip: "clientAddress l r = Inr ip" using clientAddress_total by blast
  show ?thesis
    using select_send_no_Panic
    by (auto simp: handlePost_def ip Let_def split: bodyRead.splits outcome.splits admission.splits)
qed

lemma handlePost_effect:
  assumes "wStatus w = None" and "handlePost l e r w s = Return (w', s')"
  shows "effect l e r w' s s'"
  using handlePost_Return[OF assms]
  by (auto simp: effect_def admitted_def sameButLogs_def handlerFrame_def status_defs)


lemma respondWithError_effect:
  assumes "wStatus w = None" and "c \<noteq> StatusAccepted"
  shows "effect l e r (fst (respondWithError w c m er s)) s (snd (respondWithError w c m er s))"
  using assms respondWithError_same[of s w c m er]
  by (simp add: effect_def respondWithError_status sameButLogs_def)

lemma handleSubmit_effect:
  assumes w: "wStatus w = None" and h: "handleSubmit l e r w s = Return (w', s')"
  shows "effect l e r w' s s'"
proof (cases "Method r = MethodPost")
  case True
  with h have "handlePost l e r w s = Return (w', s')" by (simp add: handleSubmit_def)
  from handlePost_effect[OF w this] show ?thesis .
next
  case False
  show ?thesis
  proof (cases "Method r = MethodGet")
    case True
    with False h w show ?thesis
      by (auto simp: handleSubmit_def effect_def handlerFrame_def writer_defs status_defs)
  next
    case g: False
    from False g h
    have "(w', s') = respondWithError w StatusMethodNotAllowed ''Only GET and POST allowed'' None s"
      by (simp add: handleSubmit_def)
    then have "w' = fst (respondWithError w StatusMethodNotAllowed ''Only GET and POST allowed'' None s)"
      and "s' = snd (respondWithError w StatusMethodNotAllowed ''Only GET and POST allowed'' None s)"
      by (metis fst_conv, metis snd_conv)
    then show ?thesis
      using respondWithError_effect[OF w, of StatusMethodNotAllowed] by (simp add: status_defs)
  qed
qed

lemma handleSubmit_no_Panic: "handleSubmit l e r w s \<noteq> Panic m x"
  using handlePost_no_Panic by (simp add: handleSubmit_def)

lemma mux_effect:
  assumes w: "wStatus w = None" and h: "mux l e r w s = Return (w', s')"
  shows "effect l e r w' s s'"
proof (cases "dispatch r")
  case RouteSubmit
  with h have "handleSubmit l e r w s = Return (w', s')" by (simp add: mux_def)
  from handleSubmit_effect[OF w this] show ?thesis .
next
  case RouteHealth
  with h w show ?thesis
    by (auto simp: mux_def handleHealth_def effect_def handlerFrame_def writer_defs status_defs)
next
  case RouteReady
  with h w show ?thesis
    by (auto simp: mux_def handleReady_def effect_def handlerFrame_def writer_defs status_defs
             split: if_splits)
next
  case RouteNotFound
  with h w show ?thesis
    by (auto simp: mux_def http_Error_def effect_def handlerFrame_def writer_defs status_defs)
qed

lemma mux_no_Panic: "mux l e r w s \<noteq> Panic m x"
  using handleSubmit_no_Panic
  by (simp add: mux_def handleHealth_def handleReady_def split: route.splits)

lemma withCORS_effect:
  assumes w: "wStatus w = None" and h: "withCORS (mux l e) r w s = Return (w', s')"
  shows "effect l e r w' s s'"
proof (cases "Method r = MethodOptions")
  case True
  with h w show ?thesis
    by (auto simp: withCORS_def effect_def handlerFrame_def writer_defs status_defs Let_def)
next
  case False
  let ?w3 = "Header_Set ''Access-Control-Allow-Headers'' ''Content-Type, Authorization''
              (Header_Set ''Access-Control-Allow-Methods'' ''GET, POST, OPTIONS''
                (Header_Set ''Access-Control-Allow-Origin'' ''*'' w))"
  from False h have "mux l e r ?w3 s = Return (w', s')" by (simp add: withCORS_def Let_def)
  moreover from w have "wStatus ?w3 = None" by (simp add: Header_Set_def)
  ultimately show ?thesis by (rule mux_effect[rotated])
qed

lemma withCORS_no_Panic: "withCORS (mux l e) r w s \<noteq> Panic m x"
  using mux_no_Panic by (simp add: withCORS_def Let_def)

lemma admitted_log: "admitted l e r s (log_Printf x s1) = admitted l e r s s1"
  by (simp add: admitted_def log_Printf_def)

lemma effect_log: "effect l e r w' s s1 \<Longrightarrow> effect l e r w' s (log_Printf x s1)"
  by (simp add: effect_def admitted_log) (simp add: handlerFrame_def log_Printf_def)

lemma serverHandler_effect:
  assumes w: "wStatus w = None" and h: "serverHandler l e r w s = Return (w', s')"
  shows "effect l e r w' s s'"
proof -
  from h withCORS_no_Panic[of l e r w s]
  obtain s1 where c: "withCORS (mux l e) r w s = Return (w', s1)"
    and s': "s' = log_Printf (Method r @ '' '' @ URLPath r @ '' '' @ elapsed e @ [lf]) s1"
    by (auto simp: serverHandler_def withRecover_def withLogging_def split: outcome.splits)
  from withCORS_effect[OF w c] s' show ?thesis by (simp add: effect_log)
qed

lemma serve_effect:
  assumes "serve l e r s = Return (w', s')"
  shows "\<exists>s1. effect l e r w' s s1 \<and> s' = s1\<lparr>sent := sent s1 @ [w']\<rparr>"
proof -
  from assms obtain s1 where h: "serverHandler l e r newResponseWriter s = Return (w', s1)"
    and s': "s' = s1\<lparr>sent := sent s1 @ [w']\<rparr>"
    by (auto simp: serve_def split: outcome.splits)
  have "wStatus newResponseWriter = None" by (simp add: newResponseWriter_def)
  from serverHandler_effect[OF this h] s' show ?thesis by blast
qed

subsection \<open>The buffered writer and the write path\<close>

lemma loop_fits: "length p \<le> Available b \<Longrightarrow> bufio_Write_loop io p b s = (p, b, s)"
  by (subst bufio_Write_loop.simps) simp

lemma loop_failed: "err b = Some x \<Longrightarrow> bufio_Write_loop io p b s = (p, b, s)"
  by (subst bufio_Write_loop.simps) simp

lemma loop_direct:
  "Available b < length p \<Longrightarrow> err b = None \<Longrightarrow> Buffered b = 0 \<Longrightarrow>
   bufio_Write_loop io p b s =
     (case file_Write io (wr b) p s of
        ((n, x), s1) \<Rightarrow> bufio_Write_loop io (drop n p) (b\<lparr>err := x\<rparr>) s1)"
  by (subst bufio_Write_loop.simps) simp

lemma bufio_Write_reset:
  "bufio_Write io dat (bufio_Reset b f) s =
     (if length dat \<le> bufferSize then (None, (bufio_Reset b f)\<lparr>buf := dat\<rparr>, s)
      else (case writeErr io of
              None \<Rightarrow> (None, bufio_Reset b f, s\<lparr>files := (files s)(f \<mapsto> contents s f @ dat)\<rparr>)
            | Some (n, x) \<Rightarrow>
                (Some x, (bufio_Reset b f)\<lparr>err := Some x\<rparr>,
                 s\<lparr>files := (files s)(f \<mapsto> contents s f @ take n dat)\<rparr>)))"
proof (cases "length dat \<le> bufferSize")
  case True
  then have "bufio_Write_loop io dat (bufio_Reset b f) s = (dat, bufio_Reset b f, s)"
    by (intro loop_fits) (simp add: Available_def bufio_Reset_def)
  with True show ?thesis by (simp add: bufio_Write_def bufio_Reset_def)
next
  case False
  then have big: "Available (bufio_Reset b f) < length dat"
    by (simp add: Available_def bufio_Reset_def)
  have e: "err (bufio_Reset b f) = None" and z: "Buffered (bufio_Reset b f) = 0"
    and t: "wr (bufio_Reset b f) = Some f"
    by (simp_all add: bufio_Reset_def Buffered_def)
  show ?thesis
  proof (cases "writeErr io")
    case None
    then have fw: "file_Write io (Some f) dat s =
        ((length dat, None), s\<lparr>files := (files s)(f \<mapsto> contents s f @ dat)\<rparr>)"
      by (simp add: file_Write_def)
    have same: "(bufio_Reset b f)\<lparr>err := None\<rparr> = bufio_Reset b f"
      by (simp add: bufio_Reset_def)
    have "bufio_Write_loop io dat (bufio_Reset b f) s =
        bufio_Write_loop io [] (bufio_Reset b f) (s\<lparr>files := (files s)(f \<mapsto> contents s f @ dat)\<rparr>)"
      by (simp add: loop_direct[OF big e z] t fw same)
    also have "\<dots> = ([], bufio_Reset b f, s\<lparr>files := (files s)(f \<mapsto> contents s f @ dat)\<rparr>)"
      by (intro loop_fits) simp
    finally show ?thesis using False None by (simp add: bufio_Write_def bufio_Reset_def)
  next
    case (Some a)
    obtain n x where a: "a = (n, x)" by (cases a)
    let ?s1 = "s\<lparr>files := (files s)(f \<mapsto> contents s f @ take n dat)\<rparr>"
    from Some a have fw: "file_Write io (Some f) dat s = ((min n (length dat), Some x), ?s1)"
      by (simp add: file_Write_def)
    have "bufio_Write_loop io dat (bufio_Reset b f) s =
        bufio_Write_loop io (drop (min n (length dat)) dat) ((bufio_Reset b f)\<lparr>err := Some x\<rparr>) ?s1"
      by (simp add: loop_direct[OF big e z] t fw)
    also have "\<dots> = (drop (min n (length dat)) dat, (bufio_Reset b f)\<lparr>err := Some x\<rparr>, ?s1)"
      by (rule loop_failed[of _ x]) simp
    finally show ?thesis using False Some a by (simp add: bufio_Write_def)
  qed
qed

lemma writeToFile_body_reset:
  "writeToFile_body io dat pth (bufio_Reset b f) s =
     (case writeErr io of
        None \<Rightarrow>
          ((bufio_Reset b f),
           if dat = [] then s else s\<lparr>files := (files s)(f \<mapsto> contents s f @ dat)\<rparr>)
      | Some (n, x) \<Rightarrow>
          if dat = [] then (bufio_Reset b f, s)
          else if length dat \<le> bufferSize then
            ((bufio_Reset b f)\<lparr>buf := drop (min n (length dat)) dat, err := Some x\<rparr>,
             log_Printf (''ERROR: Failed to flush buffer for file '' @ pth @ '': '' @ x @ [lf])
               (s\<lparr>files := (files s)(f \<mapsto> contents s f @ take n dat)\<rparr>))
          else
            ((bufio_Reset b f)\<lparr>err := Some x\<rparr>,
             log_Printf (''ERROR: Failed to write to file '' @ pth @ '': '' @ x @ [lf])
               (s\<lparr>files := (files s)(f \<mapsto> contents s f @ take n dat)\<rparr>)))"
  unfolding writeToFile_body_def bufio_Write_reset
  by (auto simp: bufio_Flush_def Buffered_def file_Write_def bufio_Reset_def Let_def bufferSize_def
           split: option.splits)


lemmas write_defs = writeToFile_def os_Create_def bufferPool_Get_def bufferPool_Put_def
  file_Close_def log_Printf_def contents_def

lemma writeToFile_frame:
  "writeQueue (writeToFile io dat pth s) = writeQueue s \<and>
   isReady (writeToFile io dat pth s) = isReady s \<and>
   sent (writeToFile io dat pth s) = sent s \<and>
   openFiles (writeToFile io dat pth s) = openFiles s \<and>
   poolBorrowed (writeToFile io dat pth s) = poolBorrowed s"
  by (simp add: write_defs writeToFile_body_reset split: option.splits list.splits)

lemma writeToFile_files:
  "files (writeToFile io dat pth s) =
     (case createErr io of
        Some x \<Rightarrow> files s
      | None \<Rightarrow> (files s)(pth \<mapsto> (case writeErr io of None \<Rightarrow> dat | Some (n, x) \<Rightarrow> take n dat)))"
  by (simp add: write_defs writeToFile_body_reset split: option.splits list.splits)

lemma writeToFile_logs:
  "logs (writeToFile io dat pth s) =
     (case createErr io of
        Some x \<Rightarrow> logs s @ [''ERROR: Failed to create file '' @ pth @ '': '' @ x @ [lf]]
      | None \<Rightarrow>
          (case writeErr io of
             None \<Rightarrow> logs s
           | Some (n, x) \<Rightarrow>
               if dat = [] then logs s
               else if length dat \<le> bufferSize then
                 logs s @ [''ERROR: Failed to flush buffer for file '' @ pth @ '': '' @ x @ [lf]]
               else logs s @ [''ERROR: Failed to write to file '' @ pth @ '': '' @ x @ [lf]]))"
  by (simp add: write_defs writeToFile_body_reset split: option.splits list.splits)

lemma writeToFile_pool:
  "createErr io = None \<Longrightarrow> length (poolIdle (writeToFile io dat pth s)) = max 1 (length (poolIdle s))"
  by (simp add: write_defs writeToFile_body_reset split: option.splits list.splits)

lemma writeToFile_defers:
  assumes "createErr io = None"
  shows "\<exists>b s3. writeToFile io dat pth s = file_Close pth (bufferPool_Put b s3) \<and>
           poolBorrowed s3 = poolBorrowed s + 1 \<and> openFiles s3 = pth # openFiles s"
proof -
  let ?s1 = "s\<lparr>files := (files s)(pth \<mapsto> []), openFiles := pth # openFiles s\<rparr>"
  obtain b s2 where g: "bufferPool_Get ?s1 = (b, s2)" by (cases "bufferPool_Get ?s1")
  obtain b1 s3 where w: "writeToFile_body io dat pth (bufio_Reset b pth) s2 = (b1, s3)"
    by (cases "writeToFile_body io dat pth (bufio_Reset b pth) s2")
  from g have s2: "poolBorrowed s2 = poolBorrowed s + 1" "openFiles s2 = pth # openFiles s"
    by (auto simp: bufferPool_Get_def split: list.splits)
  from w s2 have "poolBorrowed s3 = poolBorrowed s + 1 \<and> openFiles s3 = pth # openFiles s"
    by (auto simp: writeToFile_body_reset log_Printf_def split: option.splits if_splits)
  moreover from assms g w have "writeToFile io dat pth s = file_Close pth (bufferPool_Put b1 s3)"
    by (simp add: writeToFile_def os_Create_def)
  ultimately show ?thesis by blast
qed

lemma fileWriterWorker_Return:
  "fileWriterWorker io s = Return s' \<Longrightarrow>
   \<exists>req rest. writeQueue s = req # rest \<and> s' = writeToFile io (data req) (path req) (s\<lparr>writeQueue := rest\<rparr>)"
  by (auto simp: fileWriterWorker_def split: list.splits)

subsection \<open>The examples evaluated\<close>

lemma maxBodySize_value: "maxBodySize = 10485760"
  by (simp add: maxBodySize_def push_bit_eq_mult)

lemma replicate_num: "replicate (numeral k) x = x # replicate (pred_numeral k) x"
  by (simp add: numeral_eq_Suc)

lemma ex_time: "time_Format exampleTime = ''2024-03-09-07_05_01.000000042''"
  by (simp add: time_Format_def exampleTime_def appendInt_def itoa.simps Let_def replicate_num)

lemma ex_readBody: "readBody exampleLib examplePost = BodyOk exampleJSON"
  by (simp add: readBody_def examplePost_def exampleLib_def Header_Get_def MaxBytesReader_def io_ReadAll_def
       maxBodySize_value exampleJSON_def quoted_def Let_def)

lemma ex_clientAddress: "clientAddress exampleLib examplePost = Inr ''10.0.0.1''"
  by (simp add: clientAddress_def getClientIP_def examplePost_def exampleLib_def Header_Get_def sanitizeIP_map Let_def)

lemma ex_fileName: "fileName exampleLib exampleEnv ''10.0.0.1'' exampleJSON = ''10.0.0.1-2024-03-09-07_05_01.000000042-77.json''"
  by (simp add: fileName_def Let_def exampleEnv_def ex_time extOf_def exampleLib_def rand_Intn_def itoa.simps)

lemma ex_path: "path (buildRequest exampleLib exampleEnv ''10.0.0.1'' exampleJSON) = ''uploads/10.0.0.1-2024-03-09-07_05_01.000000042-77.json''"
  by (simp add: buildRequest_def Let_def ex_fileName filepath_Join_def filepath_Clean_def uploadDir_def)

lemma fold_goWorker:
  "fold (\<lambda>i q. goWorker q) xs p =
     p\<lparr>workers := workers p + length xs, events := events p @ replicate (length xs) EvGoWorker\<rparr>"
  by (induction xs arbitrary: p) (simp_all add: goWorker_def replicate_app_Cons_same)

lemma main_ok:
  "mkdirErr su = None \<Longrightarrow>
   main su p =
     (let q = p\<lparr>st := setReady True (log_Println ''Listening on :8989'' (st p)),
                workers := workers p + workerCount,
                events := events p @ [EvMkdirAll] @ replicate workerCount EvGoWorker @
                          [EvSetReady True, EvListenAndServe]\<rparr>
      in case listenErr su of
           Some x \<Rightarrow> log_Fatalf (''Server error: '' @ x) q
         | None \<Rightarrow> q\<lparr>listening := True\<rparr>)"
  by (simp add: main_def Let_def fold_goWorker log_Fatalf_def split: option.splits)

lemma ex_state:
  "exampleState = \<lparr>writeQueue = [], isReady = True, files = Map.empty, openFiles = [], poolIdle = [],
            poolBorrowed = 0, logs = [''Listening on :8989'' @ [lf]], sent = []\<rparr>"
  by (simp add: exampleState_def exampleProcess_def main_ok initial_def Let_def setReady_def
        log_Println_def)

lemma ex_method: "Method examplePost = MethodPost"
  by (simp add: examplePost_def MethodPost_def)

lemma ex_valid: "json_Valid exampleLib exampleJSON"
  by (simp add: exampleLib_def)

lemma ex_status: "statusOf (handlePost exampleLib exampleEnv examplePost newResponseWriter exampleState) = Some StatusAccepted"
  by (simp add: handlePost_def ex_readBody ex_clientAddress ex_method ex_valid select_send_def ex_state writeQueueCap_def
      exampleEnv_def statusOf_def Let_def WriteHeader_def Write_def newResponseWriter_def)


lemma clientAddress_safe: "clientAddress l r = Inr ip \<Longrightarrow> pathSafe ip \<and> ip \<noteq> []"
  using getClientIP_total[of l r] pathSafe_sanitizeIP
  by (auto simp: clientAddress_def Let_def pathSafe_simps split: if_splits)

lemma buildRequest_path:
  assumes "pathSafe ip"
  shows "buildRequest l e ip body = \<lparr>data = body, path = ''uploads/'' @ fileName l e ip body\<rparr>"
proof -
  from pathSafe_fileName[OF assms] have "CHR ''/'' \<notin> set (fileName l e ip body)"
    by (simp add: pathSafe_def)
  from join_upload[OF this fileName_has_dash] show ?thesis
    by (simp add: buildRequest_def Let_def)
qed

lemma readBody_BodyOk:
  "readBody l r = BodyOk P \<Longrightarrow>
   (if Header_Get (Header r) ''Content-Encoding'' = ''gzip''
    then gzip_decode l (MaxBytesReader (Body r) maxBodySize) = GzOk P
    else P = Body r \<and> length P \<le> maxBodySize)"
  by (auto simp: readBody_def Let_def io_ReadAll_def MaxBytesReader_def
           split: if_splits gzresult.splits)

lemma statusOf_Some: "statusOf x = Some c \<Longrightarrow> \<exists>w' s'. x = Return (w', s') \<and> wStatus w' = Some c"
  by (auto simp: statusOf_def split: outcome.splits)

section \<open>The claims\<close>

subsection \<open>C1\<close>

text \<open>
  C1. For every POST request whose (possibly decompressed) payload \<open>P\<close> passes admission
  (the handler answers 202), exactly one write job is produced: the queue grows by the one
  job whose content is \<open>P\<close> unchanged and whose path is the upload directory, the address,
  the timestamp, the random suffix and the extension \<open>.json\<close> if \<open>P\<close> is valid JSON and
  \<open>.txt\<close> otherwise. The worker that takes the job hands exactly \<open>P\<close> to the write path,
  and the write path stores it without transformation: the file holds \<open>P\<close> when no write
  error occurs, and the bytes of \<open>P\<close> that reached the file before the error otherwise.
\<close>

theorem C1_admitted_job_and_stored_payload:
  assumes "wStatus w = None"
    and "statusOf (handlePost l e r w s) = Some StatusAccepted"
  shows "Method r = MethodPost \<and>
     (\<exists>P ip. readBody l r = BodyOk P \<and>
        (if Header_Get (Header r) ''Content-Encoding'' = ''gzip''
         then gzip_decode l (MaxBytesReader (Body r) maxBodySize) = GzOk P
         else P = Body r) \<and>
        clientAddress l r = Inr ip \<and>
        stateOf (handlePost l e r w s) =
          Some (s\<lparr>writeQueue := writeQueue s @
                  [\<lparr>data = P,
                    path = ''uploads/'' @ ip @ ''-'' @ time_Format (now e) @ ''-'' @
                           itoa (rand_Intn e 10000) @
                           (if json_Valid l P then ''.json'' else ''.txt'')\<rparr>]\<rparr>) \<and>
        fileWriterWorker io (t\<lparr>writeQueue := \<lparr>data = P, path = pth\<rparr> # rest\<rparr>) =
          Return (writeToFile io P pth (t\<lparr>writeQueue := rest\<rparr>)) \<and>
        files (writeToFile io P pth (t\<lparr>writeQueue := rest\<rparr>)) pth =
          (case createErr io of
             Some x \<Rightarrow> files t pth
           | None \<Rightarrow> Some (case writeErr io of None \<Rightarrow> P | Some (n, x) \<Rightarrow> take n P)))"
proof -
  from statusOf_Some[OF assms(2)] obtain w' s' where
    h: "handlePost l e r w s = Return (w', s')" and c: "wStatus w' = Some StatusAccepted"
    by blast
  from handlePost_Return[OF assms(1) h] c obtain P ip where
    m: "Method r = MethodPost" and b: "readBody l r = BodyOk P" and a: "clientAddress l r = Inr ip"
    and s': "s' = s\<lparr>writeQueue := writeQueue s @ [buildRequest l e ip P]\<rparr>"
    by (auto simp: status_defs)
  from clientAddress_safe[OF a] have "pathSafe ip" by simp
  from buildRequest_path[OF this]
  have br: "buildRequest l e ip P =
        \<lparr>data = P,
         path = ''uploads/'' @ ip @ ''-'' @ time_Format (now e) @ ''-'' @
                itoa (rand_Intn e 10000) @ (if json_Valid l P then ''.json'' else ''.txt'')\<rparr>"
    by (simp add: fileName_def extOf_def Let_def)
  have st: "stateOf (handlePost l e r w s) = Some s'" using h by (simp add: stateOf_def)
  have wk: "fileWriterWorker io (t\<lparr>writeQueue := \<lparr>data = P, path = pth\<rparr> # rest\<rparr>) =
          Return (writeToFile io P pth (t\<lparr>writeQueue := rest\<rparr>))"
    by (simp add: fileWriterWorker_def)
  have fl: "files (writeToFile io P pth (t\<lparr>writeQueue := rest\<rparr>)) pth =
          (case createErr io of
             Some x \<Rightarrow> files t pth
           | None \<Rightarrow> Some (case writeErr io of None \<Rightarrow> P | Some (n, x) \<Rightarrow> take n P))"
    by (simp add: writeToFile_files split: option.splits)
  from readBody_BodyOk[OF b]
  have gz: "if Header_Get (Header r) ''Content-Encoding'' = ''gzip''
         then gzip_decode l (MaxBytesReader (Body r) maxBodySize) = GzOk P
         else P = Body r"
    by (simp split: if_splits)
  show ?thesis
    apply (rule conjI[OF m])
    apply (rule exI[of _ P], rule exI[of _ ip])
    using b gz a st s' br wk fl by simp
qed

theorem C1_witness:
  "wStatus newResponseWriter = None \<and>
   statusOf (handlePost exampleLib exampleEnv examplePost newResponseWriter exampleState)
     = Some StatusAccepted \<and>
   stateOf (handlePost exampleLib exampleEnv examplePost newResponseWriter exampleState)
     = Some (exampleState\<lparr>writeQueue :=
               [\<lparr>data = exampleJSON,
                 path = ''uploads/10.0.0.1-2024-03-09-07_05_01.000000042-77.json''\<rparr>]\<rparr>) \<and>
   files (writeToFile exampleIO exampleJSON
            ''uploads/10.0.0.1-2024-03-09-07_05_01.000000042-77.json'' exampleState)
         ''uploads/10.0.0.1-2024-03-09-07_05_01.000000042-77.json'' = Some exampleJSON"
proof -
  have w: "wStatus newResponseWriter = None" by (simp add: newResponseWriter_def)
  have q: "exampleState\<lparr>writeQueue := []\<rparr> = exampleState" by (simp add: ex_state)
  from C1_admitted_job_and_stored_payload[OF w ex_status, where io = exampleIO
      and t = exampleState and rest = "[]"
      and pth = "''uploads/10.0.0.1-2024-03-09-07_05_01.000000042-77.json''"]
  show ?thesis
    using w ex_status
    by (auto simp: ex_readBody ex_clientAddress ex_time ex_valid exampleEnv_def rand_Intn_def
          itoa.simps exampleIO_def q ex_state)
qed

subsection \<open>The answers of the submission handler\<close>

lemma handlePost_admit:
  assumes "wStatus w = None" "Method r = MethodPost" "readBody l r = BodyOk P"
    "clientAddress l r = Inr ip" "length (writeQueue s) < writeQueueCap" "ctxDone e \<longrightarrow> selectPick e"
  shows "handlePost l e r w s =
           Return (Write (if json_Valid l P then ''JSON stored'' @ [lf] else invalidJSONStored)
                     (WriteHeader StatusAccepted w),
                   s\<lparr>writeQueue := writeQueue s @ [buildRequest l e ip P]\<rparr>)"
  using assms by (auto simp: handlePost_def select_send_def Let_def)

lemma handlePost_cancel:
  assumes "Method r = MethodPost" "readBody l r = BodyOk P"
    "clientAddress l r = Inr ip" "ctxDone e" "length (writeQueue s) < writeQueueCap \<longrightarrow> \<not> selectPick e"
  shows "handlePost l e r w s =
           Return (respondWithError w StatusRequestTimeout ''Request cancelled'' (Some (ctxErr e)) s)"
  using assms by (auto simp: handlePost_def select_send_def Let_def)

lemma handlePost_blocked:
  assumes "Method r = MethodPost" "readBody l r = BodyOk P"
    "\<not> ctxDone e" "\<not> length (writeQueue s) < writeQueueCap"
  shows "handlePost l e r w s = Blocked"
proof -
  obtain ip where "clientAddress l r = Inr ip" using clientAddress_total by blast
  with assms show ?thesis by (auto simp: handlePost_def select_send_def Let_def)
qed

lemma statusOf_respondWithError:
  "wStatus w = None \<Longrightarrow> statusOf (Return (respondWithError w c m er s)) = Some c"
  using respondWithError_status[of w c m er s]
  by (cases "respondWithError w c m er s") (simp add: statusOf_def)

lemma stateOf_respondWithError:
  "map_option writeQueue (stateOf (Return (respondWithError w c m er s))) = Some (writeQueue s)"
  using respondWithError_state[of w c m er s]
  by (cases "respondWithError w c m er s") (auto simp: stateOf_def)

text \<open>The status of handlePost, in full.\<close>

lemma handlePost_status:
  assumes w: "wStatus w = None"
  shows "statusOf (handlePost l e r w s) =
     (if Method r \<noteq> MethodPost then Some StatusMethodNotAllowed
      else case readBody l r of
             InvalidGzip x \<Rightarrow> Some StatusBadRequest
           | ReadFailed x \<Rightarrow> Some StatusBadRequest
           | BodyOk P \<Rightarrow>
               if length (writeQueue s) < writeQueueCap \<and> (ctxDone e \<longrightarrow> selectPick e)
               then Some StatusAccepted
               else if ctxDone e then Some StatusRequestTimeout
               else None)"
proof (cases "Method r = MethodPost")
  case False
  then show ?thesis by (simp add: handlePost_def statusOf_respondWithError[OF w])
next
  case True
  show ?thesis
  proof (cases "readBody l r")
    case (BodyOk P)
    obtain ip where ip: "clientAddress l r = Inr ip" using clientAddress_total by blast
    consider (a) "length (writeQueue s) < writeQueueCap" "ctxDone e \<longrightarrow> selectPick e"
      | (c) "ctxDone e" "length (writeQueue s) < writeQueueCap \<longrightarrow> \<not> selectPick e"
      | (b) "\<not> ctxDone e" "\<not> length (writeQueue s) < writeQueueCap"
      by blast
    then show ?thesis
    proof cases
      case a
      from handlePost_admit[OF w True BodyOk ip a] a True BodyOk w show ?thesis
        by (simp add: statusOf_def WriteHeader_def Write_def)
    next
      case c
      from handlePost_cancel[OF True BodyOk ip c] c True BodyOk show ?thesis
        by (auto simp: statusOf_respondWithError[OF w])
    next
      case b
      from handlePost_blocked[OF True BodyOk b] b True BodyOk show ?thesis
        by (simp add: statusOf_def)
    qed
  qed (simp_all add: True handlePost_def statusOf_respondWithError[OF w])
qed

lemma handlePost_queue:
  "map_option writeQueue (stateOf (handlePost l e r w s)) =
     (if Method r \<noteq> MethodPost then Some (writeQueue s)
      else case readBody l r of
             InvalidGzip x \<Rightarrow> Some (writeQueue s)
           | ReadFailed x \<Rightarrow> Some (writeQueue s)
           | BodyOk P \<Rightarrow>
               if length (writeQueue s) < writeQueueCap \<and> (ctxDone e \<longrightarrow> selectPick e)
               then (case clientAddress l r of
                       Inr ip \<Rightarrow> Some (writeQueue s @ [buildRequest l e ip P]) | Inl m \<Rightarrow> None)
               else if ctxDone e then Some (writeQueue s)
               else None)"
proof (cases "Method r = MethodPost")
  case False
  then show ?thesis by (simp add: handlePost_def stateOf_respondWithError)
next
  case True
  show ?thesis
  proof (cases "readBody l r")
    case (BodyOk P)
    obtain ip where ip: "clientAddress l r = Inr ip" using clientAddress_total by blast
    consider (a) "length (writeQueue s) < writeQueueCap" "ctxDone e \<longrightarrow> selectPick e"
      | (c) "ctxDone e" "length (writeQueue s) < writeQueueCap \<longrightarrow> \<not> selectPick e"
      | (b) "\<not> ctxDone e" "\<not> length (writeQueue s) < writeQueueCap"
      by blast
    then show ?thesis
    proof cases
      case a
      with True BodyOk ip show ?thesis
        by (auto simp: handlePost_def select_send_def Let_def stateOf_def)
    next
      case c
      from handlePost_cancel[OF True BodyOk ip c] c True BodyOk show ?thesis
        by (auto simp: stateOf_respondWithError)
    next
      case b
      from handlePost_blocked[OF True BodyOk b] b True BodyOk show ?thesis
        by (simp add: stateOf_def)
    qed
  qed (simp_all add: True handlePost_def stateOf_respondWithError)
qed


subsection \<open>C2\<close>

text \<open>
  Against C2 as stated: the queue is empty, so it has free capacity; the request's context
  is already done, and the runtime picks the receive from \<^verbatim>\<open>Done()\<close> among the two
  ready cases of the \<^verbatim>\<open>select\<close>. The request is answered 408 and nothing is appended.
\<close>

theorem C2_counterexample:
  "length (writeQueue exampleState) < writeQueueCap \<and>
   ctxDone cancelledEnv \<and>
   statusOf (handlePost exampleLib cancelledEnv examplePost newResponseWriter exampleState)
     = Some StatusRequestTimeout \<and>
   map_option writeQueue
     (stateOf (handlePost exampleLib cancelledEnv examplePost newResponseWriter exampleState))
     = Some (writeQueue exampleState)"
  by (simp add: handlePost_status handlePost_queue newResponseWriter_def ex_method ex_readBody
        ex_state writeQueueCap_def cancelledEnv_def)

text \<open>
  C2, amended. For a POST whose body was read, admission has exactly two outcomes when it
  returns: Admitted (answered 202, the job appended at the tail of the queue) or
  Rejected(Cancelled) (answered 408, the queue unchanged); it stays parked only while the
  queue is full and the context is not done. Whenever the queue has free capacity and the
  request's cancellation signal has not fired at the admission call, the job is appended
  and Admitted is returned at once. When the queue has free capacity and the signal has
  fired, both cases of the \<^verbatim>\<open>select\<close> are ready and the runtime's pick decides between
  Admitted and Rejected(Cancelled). When the queue is full and the signal has fired, the
  answer is 408.
\<close>

theorem C2_admission_outcomes:
  assumes "wStatus w = None" and "Method r = MethodPost" and "readBody l r = BodyOk P"
  shows "(statusOf (handlePost l e r w s) = Some StatusAccepted \<and>
            (\<exists>ip. clientAddress l r = Inr ip \<and>
               map_option writeQueue (stateOf (handlePost l e r w s)) =
                 Some (writeQueue s @ [buildRequest l e ip P]))
          \<or> statusOf (handlePost l e r w s) = Some StatusRequestTimeout \<and>
            map_option writeQueue (stateOf (handlePost l e r w s)) = Some (writeQueue s)
          \<or> handlePost l e r w s = Blocked \<and>
            \<not> length (writeQueue s) < writeQueueCap \<and> \<not> ctxDone e)
       \<and> (length (writeQueue s) < writeQueueCap \<longrightarrow>
            statusOf (handlePost l e r w s) =
              Some (if ctxDone e \<and> \<not> selectPick e then StatusRequestTimeout else StatusAccepted))
       \<and> (\<not> length (writeQueue s) < writeQueueCap \<and> ctxDone e \<longrightarrow>
            statusOf (handlePost l e r w s) = Some StatusRequestTimeout)"
proof -
  obtain ip where ip: "clientAddress l r = Inr ip" using clientAddress_total by blast
  consider (a) "length (writeQueue s) < writeQueueCap" "ctxDone e \<longrightarrow> selectPick e"
    | (c) "ctxDone e" "length (writeQueue s) < writeQueueCap \<longrightarrow> \<not> selectPick e"
    | (b) "\<not> ctxDone e" "\<not> length (writeQueue s) < writeQueueCap"
    by blast
  then show ?thesis
  proof cases
    case a
    with assms ip show ?thesis by (auto simp: handlePost_status handlePost_queue)
  next
    case c
    with assms ip show ?thesis by (auto simp: handlePost_status handlePost_queue)
  next
    case b
    with assms handlePost_blocked[OF assms(2,3) b] show ?thesis
      by (auto simp: handlePost_status handlePost_queue)
  qed
qed

theorem C2_witness:
  "wStatus newResponseWriter = None \<and> Method examplePost = MethodPost \<and>
   readBody exampleLib examplePost = BodyOk exampleJSON \<and>
   length (writeQueue exampleState) < writeQueueCap \<and> \<not> ctxDone exampleEnv \<and>
   statusOf (handlePost exampleLib exampleEnv examplePost newResponseWriter exampleState)
     = Some StatusAccepted"
proof -
  have w: "wStatus newResponseWriter = None" by (simp add: newResponseWriter_def)
  have q: "length (writeQueue exampleState) < writeQueueCap"
    by (simp add: ex_state writeQueueCap_def)
  from C2_admission_outcomes[OF w ex_method ex_readBody, of exampleEnv exampleState] q
  show ?thesis using w ex_method ex_readBody by (simp add: exampleEnv_def)
qed


lemma length_concat_replicate: "length (concat (replicate n xs)) = n * length xs"
  by (induction n) simp_all

lemma bomb_length: "length bombBody = 66074"
  by (simp add: bombBody_def gzipHeader_def bombPattern_def length_concat_replicate)

lemma bomb_readBody: "readBody bombLib bombRequest = BodyOk bombPayload"
  by (simp add: readBody_def bombLib_def bombRequest_def examplePost_def Header_Get_def
        MaxBytesReader_def maxBodySize_value bomb_length Let_def)

lemma bomb_method: "Method bombRequest = MethodPost"
  by (simp add: bombRequest_def examplePost_def MethodPost_def)

subsection \<open>C6\<close>

text \<open>
  Against C6 as stated: a gzip request whose compressed body is 66074 bytes, within the
  cap, and whose decompressed form is 10487185 bytes, beyond it. The cap bounds the
  bytes read from the wire only; the request is admitted with 202.
\<close>

theorem C6_counterexample:
  "Method bombRequest = MethodPost \<and>
   Header_Get (Header bombRequest) ''Content-Encoding'' = ''gzip'' \<and>
   length (Body bombRequest) = 66074 \<and> length (Body bombRequest) \<le> maxBodySize \<and>
   readBody bombLib bombRequest = BodyOk bombPayload \<and>
   length bombPayload = 10487185 \<and> maxBodySize < length bombPayload \<and>
   statusOf (handlePost bombLib exampleEnv bombRequest newResponseWriter exampleState)
     = Some StatusAccepted"
  by (simp add: handlePost_status newResponseWriter_def bomb_method bomb_readBody ex_state
        writeQueueCap_def exampleEnv_def)
     (simp add: bombRequest_def examplePost_def Header_Get_def bombPayload_def bomb_length
        maxBodySize_value)

lemma readBody_oversized:
  assumes "maxBodySize < length (Body r)" and "gzipReadsToEnd l"
  shows "\<forall>b. readBody l r \<noteq> BodyOk b"
  using assms
  by (auto simp: readBody_def Let_def io_ReadAll_def MaxBytesReader_def gzipReadsToEnd_def
           split: gzresult.splits)

text \<open>
  C6, amended. For every POST request whose body as sent on the wire exceeds the body-size
  cap (10 MiB), the request is answered 400 and the queue is left as it was, whatever the
  state of the queue; this holds for a plain body and for a gzip body alike, the
  decompressor never reporting success when the capped reader under it failed. The cap
  applies to the bytes on the wire, not to the decompressed form.
\<close>

theorem C6_oversized_body_rejected:
  assumes "wStatus w = None" and "Method r = MethodPost"
    and "maxBodySize < length (Body r)" and "gzipReadsToEnd l"
  shows "maxBodySize = 10485760 \<and>
         statusOf (handlePost l e r w s) = Some StatusBadRequest \<and>
         map_option writeQueue (stateOf (handlePost l e r w s)) = Some (writeQueue s)"
proof -
  from readBody_oversized[OF assms(3,4)] have nb: "\<forall>b. readBody l r \<noteq> BodyOk b" .
  have st: "statusOf (handlePost l e r w s) = Some StatusBadRequest"
    using nb assms(2) by (cases "readBody l r") (simp_all add: handlePost_status[OF assms(1)])
  have qu: "map_option writeQueue (stateOf (handlePost l e r w s)) = Some (writeQueue s)"
    using nb assms(2) by (cases "readBody l r") (simp_all add: handlePost_queue)
  from st qu show ?thesis by (simp add: maxBodySize_value)
qed

lemma ex_gzipReadsToEnd: "gzipReadsToEnd exampleLib"
  by (simp add: gzipReadsToEnd_def exampleLib_def)

theorem C6_witness:
  "wStatus newResponseWriter = None \<and>
   Method oversizedPost = MethodPost \<and> Method oversizedGzip = MethodPost \<and>
   maxBodySize < length (Body oversizedPost) \<and> maxBodySize < length (Body oversizedGzip) \<and>
   Header_Get (Header oversizedGzip) ''Content-Encoding'' = ''gzip'' \<and>
   gzipReadsToEnd exampleLib \<and>
   statusOf (handlePost exampleLib exampleEnv oversizedPost newResponseWriter exampleState)
     = Some StatusBadRequest \<and>
   statusOf (handlePost exampleLib exampleEnv oversizedGzip newResponseWriter exampleState)
     = Some StatusBadRequest"
proof -
  have w: "wStatus newResponseWriter = None" by (simp add: newResponseWriter_def)
  have m: "Method oversizedPost = MethodPost" "Method oversizedGzip = MethodPost"
    by (simp_all add: oversizedGzip_def oversizedPost_def ex_method)
  have b: "maxBodySize < length (Body oversizedPost)" "maxBodySize < length (Body oversizedGzip)"
    by (simp_all add: oversizedGzip_def oversizedPost_def)
  have g: "Header_Get (Header oversizedGzip) ''Content-Encoding'' = ''gzip''"
    by (simp add: oversizedGzip_def Header_Get_def)
  from C6_oversized_body_rejected[OF w m(1) b(1) ex_gzipReadsToEnd, of exampleEnv exampleState]
       C6_oversized_body_rejected[OF w m(2) b(2) ex_gzipReadsToEnd, of exampleEnv exampleState]
  show ?thesis using w m b g ex_gzipReadsToEnd by simp
qed

subsection \<open>C8\<close>

text \<open>
  Against C8 as stated: the forwarded-for header is present with an empty value. By the
  claim's words the address is the header's first entry, which is empty, so the
  placeholder; the code falls back to the peer address.
\<close>

theorem C8_counterexample:
  "Header emptyForwarded ''X-Forwarded-For'' = Some [[]] \<and>
   spec_clientAddress exampleLib emptyForwarded = ''unknown'' \<and>
   clientAddress exampleLib emptyForwarded = Inr ''10.0.0.1''"
  by (simp add: emptyForwarded_def examplePost_def spec_clientAddress_def clientAddress_def
        getClientIP_def Header_Get_def exampleLib_def sanitizeIP_map Let_def)

lemma getClientIP_eq:
  "getClientIP l r =
     Inr (let forwarded = Header_Get (Header r) ''X-Forwarded-For''
          in if forwarded \<noteq> []
             then strings_TrimSpace l (takeWhile (\<lambda>c. c \<noteq> CHR '','') forwarded)
             else case net_SplitHostPort l (RemoteAddr r) of None \<Rightarrow> [] | Some h \<Rightarrow> h)"
proof -
  let ?f = "Header_Get (Header r) ''X-Forwarded-For''"
  obtain p ps where sp: "strings_Split ?f (CHR '','') = p # ps"
    using strings_Split_nonempty[of ?f "CHR '',''"] by (cases "strings_Split ?f (CHR '','')") auto
  with strings_Split_hd[of ?f "CHR '',''"] have "p = takeWhile (\<lambda>c. c \<noteq> CHR '','') ?f" by simp
  with sp show ?thesis
    by (simp add: getClientIP_def Let_def split: option.splits)
qed

lemma clientAddress_eq:
  "clientAddress l r =
     Inr (let forwarded = Header_Get (Header r) ''X-Forwarded-For'';
              a = (if forwarded \<noteq> []
                   then strings_TrimSpace l (takeWhile (\<lambda>c. c \<noteq> CHR '','') forwarded)
                   else case net_SplitHostPort l (RemoteAddr r) of None \<Rightarrow> [] | Some h \<Rightarrow> h);
              ip = map (\<lambda>c. if c = CHR '':'' \<or> c = CHR ''/'' \<or> c = CHR 0x5C then CHR ''_'' else c) a
          in if ip = [] then ''unknown'' else ip)"
  by (simp add: clientAddress_def getClientIP_eq Let_def sanitizeIP_map)

lemma readBody_address_irrelevant:
  "readBody l (r\<lparr>Header := (Header r)(''X-Forwarded-For'' := v), RemoteAddr := a\<rparr>) = readBody l r"
  by (simp add: readBody_def Header_Get_def)

text \<open>
  C8, amended. For every request, the client address used in the file name is the trimmed
  first comma-separated entry of the forwarded-for header when that header's value is not
  empty, and otherwise (header absent or empty) the host part of the transport-level peer
  address, empty when the peer address cannot be split; the colon, the slash and the
  backslash in it are replaced by an underscore, and if the result is empty the placeholder
  \<open>unknown\<close> is substituted. The address goes into the job's path right after the upload
  directory. No request is rejected for its address: the handler does not panic, and its
  answer stays the same when the forwarded-for header and the peer address are replaced
  by any others.
\<close>

theorem C8_client_address:
  "clientAddress l r =
     Inr (let forwarded = Header_Get (Header r) ''X-Forwarded-For'';
              a = (if forwarded \<noteq> []
                   then strings_TrimSpace l (takeWhile (\<lambda>c. c \<noteq> CHR '','') forwarded)
                   else case net_SplitHostPort l (RemoteAddr r) of None \<Rightarrow> [] | Some h \<Rightarrow> h);
              ip = map (\<lambda>c. if c = CHR '':'' \<or> c = CHR ''/'' \<or> c = CHR 0x5C then CHR ''_'' else c) a
          in if ip = [] then ''unknown'' else ip) \<and>
   (\<forall>ip. clientAddress l r = Inr ip \<longrightarrow>
      path (buildRequest l e ip P) =
        ''uploads/'' @ ip @ ''-'' @ time_Format (now e) @ ''-'' @ itoa (rand_Intn e 10000) @
        (if json_Valid l P then ''.json'' else ''.txt'')) \<and>
   handlePost l e r w s \<noteq> Panic m x \<and>
   (wStatus w = None \<longrightarrow>
      statusOf (handlePost l e (r\<lparr>Header := (Header r)(''X-Forwarded-For'' := v), RemoteAddr := a'\<rparr>) w s)
        = statusOf (handlePost l e r w s))"
proof -
  have p: "path (buildRequest l e ip P) =
        ''uploads/'' @ ip @ ''-'' @ time_Format (now e) @ ''-'' @ itoa (rand_Intn e 10000) @
        (if json_Valid l P then ''.json'' else ''.txt'')" if "clientAddress l r = Inr ip" for ip
    using buildRequest_path[of ip l e P] clientAddress_safe[OF that]
    by (simp add: fileName_def extOf_def Let_def)
  have "statusOf (handlePost l e (r\<lparr>Header := (Header r)(''X-Forwarded-For'' := v), RemoteAddr := a'\<rparr>) w s)
        = statusOf (handlePost l e r w s)" if "wStatus w = None"
    by (simp add: handlePost_status[OF that] readBody_address_irrelevant)
  with p clientAddress_eq[of l r] handlePost_no_Panic[of l e r w s m x] show ?thesis by blast
qed


theorem C8_witness:
  "clientAddress exampleLib forwardedPost = Inr ''.._.._etc'' \<and>
   path (buildRequest exampleLib exampleEnv ''.._.._etc'' exampleJSON) =
     ''uploads/.._.._etc-2024-03-09-07_05_01.000000042-77.json'' \<and>
   clientAddress exampleLib noAddressPost = Inr ''unknown'' \<and>
   wStatus newResponseWriter = None \<and>
   statusOf (handlePost exampleLib exampleEnv noAddressPost newResponseWriter exampleState)
     = Some StatusAccepted"
proof -
  have w: "wStatus newResponseWriter = None" by (simp add: newResponseWriter_def)
  from C8_client_address[of exampleLib forwardedPost]
  have a: "clientAddress exampleLib forwardedPost = Inr ''.._.._etc''"
    by (simp add: forwardedPost_def examplePost_def exampleLib_def Header_Get_def)
  from C8_client_address[of exampleLib forwardedPost exampleEnv exampleJSON] a
  have "path (buildRequest exampleLib exampleEnv ''.._.._etc'' exampleJSON) =
      ''uploads/'' @ ''.._.._etc'' @ ''-'' @ time_Format (now exampleEnv) @ ''-'' @
      itoa (rand_Intn exampleEnv 10000) @
      (if json_Valid exampleLib exampleJSON then ''.json'' else ''.txt'')"
    by blast
  then have p: "path (buildRequest exampleLib exampleEnv ''.._.._etc'' exampleJSON) =
     ''uploads/.._.._etc-2024-03-09-07_05_01.000000042-77.json''"
    by (simp add: exampleEnv_def ex_time ex_valid rand_Intn_def itoa.simps)
  from C8_client_address[of exampleLib noAddressPost]
  have b: "clientAddress exampleLib noAddressPost = Inr ''unknown''"
    by (simp add: noAddressPost_def examplePost_def exampleLib_def Header_Get_def)
  from C8_client_address[where l = exampleLib and r = examplePost and e = exampleEnv
      and w = newResponseWriter and s = exampleState and v = None and a' = "[]"] w
  have "statusOf (handlePost exampleLib exampleEnv noAddressPost newResponseWriter exampleState)
     = Some StatusAccepted"
    by (simp add: noAddressPost_def ex_status)
  with a b p w show ?thesis by simp
qed

subsection \<open>The answers of the handler chain\<close>

lemma cors_writer_status:
  "wStatus (Header_Set k3 v3 (Header_Set k2 v2 (Header_Set k1 v1 w))) = wStatus w"
  by (simp add: Header_Set_def)

lemma methods_distinct:
  "MethodGet \<noteq> MethodPost" "MethodPost \<noteq> MethodGet"
  "MethodOptions \<noteq> MethodPost" "MethodPost \<noteq> MethodOptions"
  "MethodOptions \<noteq> MethodGet" "MethodGet \<noteq> MethodOptions"
  by (simp_all add: MethodGet_def MethodPost_def MethodOptions_def)

lemma statusOf_handleSubmit:
  assumes "wStatus w = None"
  shows "statusOf (handleSubmit l e r w s) =
     (if Method r = MethodPost then statusOf (handlePost l e r w s)
      else if Method r = MethodGet then Some StatusOK
      else Some StatusMethodNotAllowed)"
proof -
  have "statusOf (Return (Write alivePayload
          (WriteHeader StatusOK (Header_Set ''Content-Type'' ''application/json'' w)), s)) = Some StatusOK"
    using assms by (simp add: statusOf_def writer_defs)
  then show ?thesis
    by (simp add: handleSubmit_def statusOf_respondWithError[OF assms])
qed

lemma statusOf_mux:
  assumes "wStatus w = None"
  shows "statusOf (mux l e r w s) =
     (case dispatch r of
        RouteSubmit \<Rightarrow>
          (if Method r = MethodPost then statusOf (handlePost l e r w s)
           else if Method r = MethodGet then Some StatusOK
           else Some StatusMethodNotAllowed)
      | RouteHealth \<Rightarrow> Some StatusOK
      | RouteReady \<Rightarrow> Some (if isReady s then StatusOK else StatusServiceUnavailable)
      | RouteNotFound \<Rightarrow> Some 404)"
proof (cases "dispatch r")
  case RouteSubmit
  then show ?thesis by (simp add: mux_def statusOf_handleSubmit[OF assms])
next
  case RouteHealth
  with assms show ?thesis by (simp add: mux_def handleHealth_def statusOf_def writer_defs)
next
  case RouteReady
  with assms show ?thesis
    by (simp add: mux_def handleReady_def checkReady_def statusOf_def writer_defs)
next
  case RouteNotFound
  with assms show ?thesis by (simp add: mux_def http_Error_def statusOf_def writer_defs)
qed

lemma statusOf_withCORS:
  assumes "wStatus w = None"
  shows "statusOf (withCORS (mux l e) r w s) =
     (if Method r = MethodOptions then Some StatusNoContent
      else case dispatch r of
             RouteSubmit \<Rightarrow>
               (if Method r = MethodPost then statusOf (handlePost l e r w s)
                else if Method r = MethodGet then Some StatusOK
                else Some StatusMethodNotAllowed)
           | RouteHealth \<Rightarrow> Some StatusOK
           | RouteReady \<Rightarrow> Some (if isReady s then StatusOK else StatusServiceUnavailable)
           | RouteNotFound \<Rightarrow> Some 404)"
proof -
  let ?w3 = "Header_Set ''Access-Control-Allow-Headers'' ''Content-Type, Authorization''
              (Header_Set ''Access-Control-Allow-Methods'' ''GET, POST, OPTIONS''
                (Header_Set ''Access-Control-Allow-Origin'' ''*'' w))"
  have w3: "wStatus ?w3 = None" using assms by (simp add: Header_Set_def)
  have hp: "statusOf (handlePost l e r ?w3 s) = statusOf (handlePost l e r w s)"
    by (simp add: handlePost_status[OF w3] handlePost_status[OF assms])
  show ?thesis
  proof (cases "Method r = MethodOptions")
    case True
    with assms show ?thesis
      by (simp add: withCORS_def Let_def statusOf_def WriteHeader_def Header_Set_def)
  next
    case False
    then have "withCORS (mux l e) r w s = mux l e r ?w3 s" by (simp add: withCORS_def Let_def)
    with False hp show ?thesis
      by (simp add: statusOf_mux[OF w3] methods_distinct split: route.splits)
  qed
qed

lemma statusOf_serverHandler:
  "statusOf (serverHandler l e r w s) = statusOf (withCORS (mux l e) r w s)"
  using withCORS_no_Panic[of l e r w s]
  by (auto simp: serverHandler_def withRecover_def withLogging_def statusOf_def
           split: outcome.splits)

lemma statusOf_serve: "statusOf (serve l e r s) = statusOf (serverHandler l e r newResponseWriter s)"
  by (auto simp: serve_def statusOf_def split: outcome.splits)

lemma new_writer: "wStatus newResponseWriter = None"
  by (simp add: newResponseWriter_def)

lemma ex_options: "Method exampleOptions = MethodOptions" "dispatch exampleOptions = RouteSubmit"
  by (simp_all add: exampleOptions_def examplePost_def MethodOptions_def dispatch_def)

lemma ex_canonical:
  "canonicalRequest examplePost" "canonicalRequest exampleOptions" "canonicalRequest examplePut"
  "canonicalRequest exampleGet" "canonicalRequest subtreePut"
  by (simp_all add: canonicalRequest_def canonicalPath_def examplePost_def exampleOptions_def
        examplePut_def exampleGet_def subtreePut_def)

subsection \<open>C5\<close>

text \<open>
  Against C5 as stated: an OPTIONS request on the submission route is neither POST nor
  GET, and the handler chain answers it 204 in the CORS layer, before the mux is reached.
\<close>

theorem C5_counterexample:
  "dispatch exampleOptions = RouteSubmit \<and> canonicalRequest exampleOptions \<and>
   Method exampleOptions \<noteq> MethodPost \<and> Method exampleOptions \<noteq> MethodGet \<and>
   statusOf (serverHandler exampleLib exampleEnv exampleOptions newResponseWriter exampleState)
     = Some StatusNoContent \<and>
   StatusNoContent \<noteq> StatusMethodNotAllowed"
  by (simp add: statusOf_serverHandler statusOf_withCORS new_writer ex_options ex_canonical)
     (simp add: MethodOptions_def MethodPost_def MethodGet_def status_defs)

lemma serverHandler_get:
  assumes "dispatch r = RouteSubmit" "Method r = MethodGet"
  shows "\<exists>w' s'. serverHandler l e r newResponseWriter s = Return (w', s') \<and>
           wStatus w' = Some StatusOK \<and> wBody w' = alivePayload \<and>
           wHeader w' ''Content-Type'' = Some ''application/json''"
  using assms
  by (simp add: serverHandler_def withRecover_def withLogging_def withCORS_def mux_def
        handleSubmit_def Let_def MethodGet_def MethodOptions_def MethodPost_def writer_defs
        newResponseWriter_def)

text \<open>
  C5, amended. On the submission route, as the handler chain serves it, for a request in
  canonical form (its path is \<open>/v1/collection\<close> or begins with \<open>/v1/collection/\<close>, holds
  no percent escape and no empty, \<open>.\<close> or \<open>..\<close> element): an OPTIONS request is answered
  204 by the CORS layer; every request whose method is none of POST, GET and OPTIONS is
  rejected with 405; a GET returns the static alive payload as JSON with status 200. The
  route's own handler rejects every method other than POST and GET with 405.
\<close>

theorem C5_submit_route_methods:
  assumes "dispatch r = RouteSubmit" and "canonicalRequest r"
  shows "(URLPath r = ''/v1/collection'' \<or> take 15 (URLPath r) = ''/v1/collection/'') \<and>
         (Method r = MethodOptions \<longrightarrow>
            statusOf (serverHandler l e r newResponseWriter s) = Some StatusNoContent) \<and>
         (Method r \<noteq> MethodPost \<and> Method r \<noteq> MethodGet \<and> Method r \<noteq> MethodOptions \<longrightarrow>
            statusOf (serverHandler l e r newResponseWriter s) = Some StatusMethodNotAllowed) \<and>
         (Method r = MethodGet \<longrightarrow>
            (\<exists>w' s'. serverHandler l e r newResponseWriter s = Return (w', s') \<and>
               wStatus w' = Some StatusOK \<and> wBody w' = alivePayload \<and>
               wHeader w' ''Content-Type'' = Some ''application/json'')) \<and>
         (wStatus w = None \<and> Method r \<noteq> MethodPost \<and> Method r \<noteq> MethodGet \<longrightarrow>
            statusOf (handleSubmit l e r w s) = Some StatusMethodNotAllowed) \<and>
         StatusMethodNotAllowed = 405 \<and> StatusOK = 200 \<and> StatusNoContent = 204"
proof -
  have a: "statusOf (handleSubmit l e r w s) = Some StatusMethodNotAllowed"
    if "wStatus w = None" "Method r \<noteq> MethodPost" "Method r \<noteq> MethodGet"
    using that by (simp add: handleSubmit_def statusOf_respondWithError)
  have p: "URLPath r = ''/v1/collection'' \<or> take 15 (URLPath r) = ''/v1/collection/''"
    using assms(1) by (auto simp: dispatch_def split: if_splits)
  from assms(1) serverHandler_get[OF assms(1), of l e s] a p show ?thesis
    by (auto simp: statusOf_serverHandler statusOf_withCORS new_writer status_defs)
qed

lemma ex_put: "Method examplePut \<noteq> MethodPost" "Method examplePut \<noteq> MethodGet"
  "Method examplePut \<noteq> MethodOptions" "dispatch examplePut = RouteSubmit"
  by (simp_all add: examplePut_def examplePost_def MethodOptions_def MethodPost_def MethodGet_def
        dispatch_def)

lemma ex_get: "Method exampleGet = MethodGet" "dispatch exampleGet = RouteSubmit"
  by (simp_all add: exampleGet_def examplePost_def MethodGet_def dispatch_def)

lemma ex_subtree: "Method subtreePut \<noteq> MethodPost" "Method subtreePut \<noteq> MethodGet"
  "Method subtreePut \<noteq> MethodOptions" "dispatch subtreePut = RouteSubmit"
  by (simp_all add: subtreePut_def examplePost_def MethodOptions_def MethodPost_def MethodGet_def
        dispatch_def)

theorem C5_witness:
  "dispatch examplePut = RouteSubmit \<and> canonicalRequest examplePut \<and>
   dispatch subtreePut = RouteSubmit \<and> canonicalRequest subtreePut \<and>
   dispatch exampleGet = RouteSubmit \<and> canonicalRequest exampleGet \<and>
   dispatch exampleOptions = RouteSubmit \<and> canonicalRequest exampleOptions \<and>
   statusOf (serverHandler exampleLib exampleEnv examplePut newResponseWriter exampleState) = Some 405 \<and>
   statusOf (serverHandler exampleLib exampleEnv subtreePut newResponseWriter exampleState) = Some 405 \<and>
   statusOf (serverHandler exampleLib exampleEnv exampleGet newResponseWriter exampleState) = Some 200 \<and>
   statusOf (serverHandler exampleLib exampleEnv exampleOptions newResponseWriter exampleState) = Some 204 \<and>
   wStatus newResponseWriter = None \<and>
   statusOf (handleSubmit exampleLib exampleEnv examplePut newResponseWriter exampleState) = Some 405"
proof -
  from C5_submit_route_methods[OF ex_get(2) ex_canonical(4), of exampleLib exampleEnv exampleState]
    ex_get(1)
  have "statusOf (serverHandler exampleLib exampleEnv exampleGet newResponseWriter exampleState) = Some 200"
    by (auto simp: statusOf_def)
  with C5_submit_route_methods[OF ex_put(4) ex_canonical(3),
      of exampleLib exampleEnv exampleState newResponseWriter]
    ex_put new_writer
    C5_submit_route_methods[OF ex_subtree(4) ex_canonical(5), of exampleLib exampleEnv exampleState]
    ex_subtree
    C5_submit_route_methods[OF ex_options(2) ex_canonical(2), of exampleLib exampleEnv exampleState]
    ex_options ex_get ex_canonical
  show ?thesis by simp
qed


lemma handlePost_files:
  assumes "wStatus w = None" and "handlePost l e r w s = Return (w', s')"
  shows "handlerFrame s s'"
  using handlePost_effect[OF assms] by (simp add: effect_def)

lemma worker_writes_job:
  assumes "fileWriterWorker io t = Return t'"
  shows "\<exists>req rest. writeQueue t = req # rest \<and> writeQueue t' = rest \<and>
           (\<forall>f. f \<noteq> path req \<longrightarrow> files t' f = files t f)"
proof -
  from fileWriterWorker_Return[OF assms] obtain req rest where
    q: "writeQueue t = req # rest"
    and t': "t' = writeToFile io (data req) (path req) (t\<lparr>writeQueue := rest\<rparr>)" by blast
  from t' have "writeQueue t' = rest" by (simp add: writeToFile_frame)
  moreover from t' have "\<forall>f. f \<noteq> path req \<longrightarrow> files t' f = files t f"
    by (simp add: writeToFile_files split: option.splits)
  ultimately show ?thesis using q by blast
qed

subsection \<open>C7\<close>

text \<open>
  C7. Whenever the server answers a request with a status from 400 to 499, the request has
  been served with the queue, the files and the open file handles exactly as before: no
  job was enqueued and no file created. In particular a POST handler call with a wrong
  method, or whose body cannot be read (over the cap, or gzip that does not decompress),
  answers 405 or 400 and leaves queue and files alone. Files change only when a worker
  takes a job from the queue, and then only at that job's path.
\<close>

theorem C7_client_errors_enqueue_nothing:
  assumes "statusOf (serve l e r s) = Some c" and "400 \<le> c" and "c < 500"
  shows "(\<exists>w' s'. serve l e r s = Return (w', s') \<and> wStatus w' = Some c \<and>
            writeQueue s' = writeQueue s \<and> files s' = files s \<and> openFiles s' = openFiles s) \<and>
         (wStatus w = None \<and> (Method r \<noteq> MethodPost \<or> (\<forall>b. readBody l r \<noteq> BodyOk b)) \<longrightarrow>
            (statusOf (handlePost l e r w s) = Some StatusMethodNotAllowed \<or>
             statusOf (handlePost l e r w s) = Some StatusBadRequest) \<and>
            map_option writeQueue (stateOf (handlePost l e r w s)) = Some (writeQueue s) \<and>
            map_option files (stateOf (handlePost l e r w s)) = Some (files s)) \<and>
         (fileWriterWorker io t = Return t' \<longrightarrow>
            (\<exists>req rest. writeQueue t = req # rest \<and> writeQueue t' = rest \<and>
               (\<forall>f. f \<noteq> path req \<longrightarrow> files t' f = files t f)))"
proof -
  from statusOf_Some[OF assms(1)] obtain w' s' where
    h: "serve l e r s = Return (w', s')" and c: "wStatus w' = Some c" by blast
  from serve_effect[OF h] obtain s1 where
    ef: "effect l e r w' s s1" and s': "s' = s1\<lparr>sent := sent s1 @ [w']\<rparr>" by blast
  from assms(2) c have "wStatus w' \<noteq> Some StatusAccepted" by (simp add: status_defs)
  with ef s' have "writeQueue s' = writeQueue s \<and> files s' = files s \<and> openFiles s' = openFiles s"
    by (simp add: effect_def handlerFrame_def)
  with h c have first: "\<exists>w' s'. serve l e r s = Return (w', s') \<and> wStatus w' = Some c \<and>
            writeQueue s' = writeQueue s \<and> files s' = files s \<and> openFiles s' = openFiles s"
    by blast
  have second: "(statusOf (handlePost l e r w s) = Some StatusMethodNotAllowed \<or>
             statusOf (handlePost l e r w s) = Some StatusBadRequest) \<and>
            map_option writeQueue (stateOf (handlePost l e r w s)) = Some (writeQueue s) \<and>
            map_option files (stateOf (handlePost l e r w s)) = Some (files s)"
    if w: "wStatus w = None" and bad: "Method r \<noteq> MethodPost \<or> (\<forall>b. readBody l r \<noteq> BodyOk b)"
  proof -
    from bad have st: "statusOf (handlePost l e r w s) = Some StatusMethodNotAllowed \<or>
             statusOf (handlePost l e r w s) = Some StatusBadRequest"
      by (cases "readBody l r") (auto simp: handlePost_status[OF w])
    from bad have qu: "map_option writeQueue (stateOf (handlePost l e r w s)) = Some (writeQueue s)"
      by (cases "readBody l r") (auto simp: handlePost_queue)
    from st obtain w1 s1 where r1: "handlePost l e r w s = Return (w1, s1)"
      using statusOf_Some by blast
    from handlePost_files[OF w r1] r1
    have "map_option files (stateOf (handlePost l e r w s)) = Some (files s)"
      by (simp add: stateOf_def handlerFrame_def)
    with st qu show ?thesis by simp
  qed
  from first second worker_writes_job[of io t t'] show ?thesis by blast
qed

lemma ex_put_status:
  "statusOf (serve exampleLib exampleEnv examplePut exampleState) = Some 405"
  by (simp add: statusOf_serve statusOf_serverHandler statusOf_withCORS new_writer ex_put
        status_defs)

theorem C7_witness:
  "statusOf (serve exampleLib exampleEnv examplePut exampleState) = Some 405 \<and>
   (400::nat) \<le> 405 \<and> (405::nat) < 500 \<and>
   (\<exists>w' s'. serve exampleLib exampleEnv examplePut exampleState = Return (w', s') \<and>
      wStatus w' = Some 405 \<and> writeQueue s' = [] \<and> files s' = Map.empty) \<and>
   wStatus newResponseWriter = None \<and> Method examplePut \<noteq> MethodPost \<and>
   map_option writeQueue (stateOf (handlePost exampleLib exampleEnv examplePut newResponseWriter exampleState))
     = Some [] \<and>
   fileWriterWorker exampleIO (exampleState\<lparr>writeQueue := [exampleJob]\<rparr>) =
     Return (writeToFile exampleIO (data exampleJob) (path exampleJob) (exampleState\<lparr>writeQueue := []\<rparr>)) \<and>
   writeQueue (writeToFile exampleIO (data exampleJob) (path exampleJob) (exampleState\<lparr>writeQueue := []\<rparr>)) = []"
proof -
  have a: "(400::nat) \<le> 405" "(405::nat) < 500" by simp_all
  have k: "fileWriterWorker exampleIO (exampleState\<lparr>writeQueue := [exampleJob]\<rparr>) =
     Return (writeToFile exampleIO (data exampleJob) (path exampleJob) (exampleState\<lparr>writeQueue := []\<rparr>))"
    by (simp add: fileWriterWorker_def)
  from C7_client_errors_enqueue_nothing[OF ex_put_status a, where w = newResponseWriter
      and io = exampleIO and t = "exampleState\<lparr>writeQueue := [exampleJob]\<rparr>"
      and t' = "writeToFile exampleIO (data exampleJob) (path exampleJob) (exampleState\<lparr>writeQueue := []\<rparr>)"]
    new_writer ex_put(1) k ex_put_status
  show ?thesis by (auto simp: ex_state)
qed

subsection \<open>The running process\<close>

lemma directChild_upload: "pathSafe fn \<Longrightarrow> fn \<noteq> [] \<Longrightarrow> directChild (''uploads/'' @ fn)"
  by (simp add: directChild_def)

lemma buildRequest_directChild:
  assumes "clientAddress l r = Inr ip"
  shows "directChild (path (buildRequest l e ip P))"
proof -
  from clientAddress_safe[OF assms] have s: "pathSafe ip" by simp
  have "fileName l e ip P \<noteq> []" using fileName_has_dash[of l e ip P] by auto
  with pathSafe_fileName[OF s, of l e P]
  have "directChild (''uploads/'' @ fileName l e ip P)" by (intro directChild_upload)
  then show ?thesis by (simp only: buildRequest_path[OF s] writeRequest.simps)
qed

text \<open>The invariant of the running process.\<close>

lemma step_fields:
  "step l p q \<Longrightarrow> workers q = workers p \<and> listening q = listening p \<and> exited q = exited p \<and>
     events q = events p"
  by (induction rule: step.induct) simp_all

lemma step_isReady: "step l p q \<Longrightarrow> isReady (st q) = isReady (st p)"
proof (induction rule: step.induct)
  case (request p e r w s1)
  from serve_effect[OF request(3)] show ?case by (auto simp: effect_def handlerFrame_def)
next
  case (worker p io s1)
  from fileWriterWorker_Return[OF worker(3)] show ?case by (auto simp: writeToFile_frame)
qed

lemma step_queue:
  assumes "step l p q"
  shows "writeQueue (st q) = writeQueue (st p)
       \<or> (length (writeQueue (st p)) < writeQueueCap \<and>
          (\<exists>req. writeQueue (st q) = writeQueue (st p) @ [req] \<and> directChild (path req)))
       \<or> (writeQueue (st p) \<noteq> [] \<and> writeQueue (st q) = tl (writeQueue (st p)))"
  using assms
proof (induction rule: step.induct)
  case (request p e r w s1)
  from serve_effect[OF request(3)] obtain s0 where
    ef: "effect l e r w (st p) s0" and s1: "s1 = s0\<lparr>sent := sent s0 @ [w]\<rparr>" by blast
  show ?case
  proof (cases "wStatus w = Some StatusAccepted")
    case True
    with ef obtain body ip where "clientAddress l r = Inr ip"
      "length (writeQueue (st p)) < writeQueueCap"
      "writeQueue s0 = writeQueue (st p) @ [buildRequest l e ip body]"
      by (auto simp: effect_def admitted_def)
    with buildRequest_directChild[of l r ip e body] s1 show ?thesis by auto
  next
    case False
    with ef s1 show ?thesis by (simp add: effect_def)
  qed
next
  case (worker p io s1)
  from fileWriterWorker_Return[OF worker(3)] show ?case by (auto simp: writeToFile_frame)
qed

lemma step_files:
  assumes "step l p q" and "files (st q) f \<noteq> files (st p) f"
  shows "writeQueue (st p) \<noteq> [] \<and> f = path (hd (writeQueue (st p)))"
  using assms
proof (induction rule: step.induct)
  case (request p e r w s1)
  from serve_effect[OF request(3)] request(4) show ?case
    by (auto simp: effect_def handlerFrame_def)
next
  case (worker p io s1)
  from worker_writes_job[OF worker(3)] worker(4) show ?case by auto
qed

lemma initial_fields:
  "writeQueue (st (initial fs)) = [] \<and> \<not> isReady (st (initial fs)) \<and> \<not> listening (initial fs) \<and>
   workers (initial fs) = 0 \<and> \<not> exited (initial fs) \<and> events (initial fs) = []"
  by (simp add: initial_def)

lemma main_fields:
  "writeQueue (st (main su (initial fs))) = [] \<and>
   isReady (st (main su (initial fs))) = (mkdirErr su = None) \<and>
   listening (main su (initial fs)) = (mkdirErr su = None \<and> listenErr su = None) \<and>
   exited (main su (initial fs)) = (mkdirErr su \<noteq> None \<or> listenErr su \<noteq> None) \<and>
   workers (main su (initial fs)) = (if mkdirErr su = None then workerCount else 0)"
proof (cases "mkdirErr su")
  case None
  then show ?thesis
    by (auto simp: main_ok initial_def Let_def setReady_def log_Println_def log_Fatalf_def
          log_Printf_def split: option.splits)
next
  case (Some x)
  then show ?thesis
    by (simp add: main_def initial_def Let_def log_Fatalf_def log_Printf_def)
qed

lemma reachable_invariant:
  assumes "reachable l p"
  shows "length (writeQueue (st p)) \<le> writeQueueCap \<and>
         (\<forall>req \<in> set (writeQueue (st p)). directChild (path req)) \<and>
         (listening p \<longrightarrow> isReady (st p) \<and> \<not> exited p \<and> workers p = workerCount)"
  using assms
proof (induction rule: reachable.induct)
  case (start fs)
  show ?case using initial_fields[of fs] by simp
next
  case (booted su fs)
  show ?case using main_fields[of su fs] by simp
next
  case (next_step p q)
  from step_queue[OF next_step(2)] next_step(3)
  have "length (writeQueue (st q)) \<le> writeQueueCap \<and>
         (\<forall>req \<in> set (writeQueue (st q)). directChild (path req))"
    by (auto simp: list.set_sel(2))
  with step_fields[OF next_step(2)] step_isReady[OF next_step(2)] next_step(3)
  show ?case by simp
qed


lemma serve_queue:
  assumes "statusOf (serve l e r s) = Some c"
  shows "\<exists>s'. stateOf (serve l e r s) = Some s' \<and>
           (if c = StatusAccepted
            then length (writeQueue s) < writeQueueCap \<and>
                 (\<exists>req. writeQueue s' = writeQueue s @ [req] \<and> directChild (path req))
            else writeQueue s' = writeQueue s)"
proof -
  from statusOf_Some[OF assms] obtain w' s' where
    h: "serve l e r s = Return (w', s')" and c: "wStatus w' = Some c" by blast
  from serve_effect[OF h] obtain s1 where
    ef: "effect l e r w' s s1" and s': "s' = s1\<lparr>sent := sent s1 @ [w']\<rparr>" by blast
  have st: "stateOf (serve l e r s) = Some s'" using h by (simp add: stateOf_def)
  show ?thesis
  proof (cases "c = StatusAccepted")
    case True
    with ef c obtain body ip where "clientAddress l r = Inr ip"
      "length (writeQueue s) < writeQueueCap"
      "writeQueue s1 = writeQueue s @ [buildRequest l e ip body]"
      by (auto simp: effect_def admitted_def)
    with buildRequest_directChild[of l r ip e body] s' st True show ?thesis by auto
  next
    case False
    with ef c s' st show ?thesis by (simp add: effect_def)
  qed
qed

lemma ex_post_route: "Method examplePost \<noteq> MethodOptions" "dispatch examplePost = RouteSubmit"
  by (simp_all add: examplePost_def MethodOptions_def dispatch_def)

lemma ex_serve_status:
  "statusOf (serve exampleLib exampleEnv examplePost exampleState) = Some StatusAccepted"
  by (simp add: statusOf_serve statusOf_serverHandler statusOf_withCORS new_writer ex_post_route
        ex_method ex_status methods_distinct)

lemma ex_process:
  "reachable exampleLib exampleProcess" "listening exampleProcess" "\<not> exited exampleProcess"
  "st exampleProcess = exampleState"
  using main_fields[of "\<lparr>mkdirErr = None, listenErr = None\<rparr>" Map.empty]
  by (simp_all add: exampleProcess_def exampleState_def reachable.booted)

lemma ex_worker:
  "fileWriterWorker exampleIO (exampleState\<lparr>writeQueue := [exampleJob]\<rparr>) =
     Return (writeToFile exampleIO (data exampleJob) (path exampleJob) (exampleState\<lparr>writeQueue := []\<rparr>))"
  by (simp add: fileWriterWorker_def)

subsection \<open>C3\<close>

text \<open>
  C3. The queue capacity is 100. In every reachable state of the process (from the start
  of \<^verbatim>\<open>main\<close> on, through any sequence of requests served and jobs written), the number
  of jobs in the queue does not exceed the capacity. A request served to its answer
  appends one job exactly when it answers 202, and then the queue was below capacity;
  with any other answer it leaves the queue as it was. A worker's turn takes the oldest
  job off a non-empty queue and changes the queue in no other way.
\<close>

theorem C3_queue_never_exceeds_capacity:
  "writeQueueCap = 100 \<and>
   (reachable l p \<longrightarrow> length (writeQueue (st p)) \<le> writeQueueCap) \<and>
   (statusOf (serve l e r s) = Some c \<longrightarrow>
      (\<exists>s'. stateOf (serve l e r s) = Some s' \<and>
         (if c = StatusAccepted
          then length (writeQueue s) < writeQueueCap \<and> (\<exists>req. writeQueue s' = writeQueue s @ [req])
          else writeQueue s' = writeQueue s))) \<and>
   (fileWriterWorker io t = Return t' \<longrightarrow> writeQueue t \<noteq> [] \<and> writeQueue t' = tl (writeQueue t))"
proof -
  have a: "reachable l p \<longrightarrow> length (writeQueue (st p)) \<le> writeQueueCap"
    using reachable_invariant[of l p] by blast
  have b: "statusOf (serve l e r s) = Some c \<longrightarrow>
      (\<exists>s'. stateOf (serve l e r s) = Some s' \<and>
         (if c = StatusAccepted
          then length (writeQueue s) < writeQueueCap \<and> (\<exists>req. writeQueue s' = writeQueue s @ [req])
          else writeQueue s' = writeQueue s))"
    using serve_queue[of l e r s c] by (auto split: if_splits)
  have c: "fileWriterWorker io t = Return t' \<longrightarrow> writeQueue t \<noteq> [] \<and> writeQueue t' = tl (writeQueue t)"
    using worker_writes_job[of io t t'] by auto
  from a b c show ?thesis by (simp add: writeQueueCap_def)
qed

theorem C3_witness:
  "reachable exampleLib exampleProcess \<and>
   length (writeQueue (st exampleProcess)) \<le> writeQueueCap \<and>
   statusOf (serve exampleLib exampleEnv examplePost exampleState) = Some StatusAccepted \<and>
   (\<exists>s'. stateOf (serve exampleLib exampleEnv examplePost exampleState) = Some s' \<and>
          (\<exists>req. writeQueue s' = [req])) \<and>
   fileWriterWorker exampleIO (exampleState\<lparr>writeQueue := [exampleJob]\<rparr>) =
     Return (writeToFile exampleIO (data exampleJob) (path exampleJob) (exampleState\<lparr>writeQueue := []\<rparr>)) \<and>
   writeQueue (writeToFile exampleIO (data exampleJob) (path exampleJob) (exampleState\<lparr>writeQueue := []\<rparr>)) = []"
  using C3_queue_never_exceeds_capacity[where l = exampleLib and p = exampleProcess
      and e = exampleEnv and r = examplePost and s = exampleState and c = StatusAccepted
      and io = exampleIO and t = "exampleState\<lparr>writeQueue := [exampleJob]\<rparr>"
      and t' = "writeToFile exampleIO (data exampleJob) (path exampleJob) (exampleState\<lparr>writeQueue := []\<rparr>)"]
    ex_process(1) ex_serve_status ex_worker
  by (auto simp: ex_state)

lemma main_events:
  "mkdirErr su = None \<Longrightarrow>
   events (main su (initial fs)) =
     [EvMkdirAll] @ replicate workerCount EvGoWorker @ [EvSetReady True, EvListenAndServe] @
     (case listenErr su of None \<Rightarrow> [] | Some x \<Rightarrow> [EvFatal])"
  by (simp add: main_ok initial_def Let_def log_Fatalf_def split: option.splits)

subsection \<open>C4\<close>

text \<open>
  Against C4 as stated: a start-up in which the listener cannot bind. The flag was set
  true before \<^verbatim>\<open>ListenAndServe\<close> was called, so it is true although the bind never
  completed and the process exits.
\<close>

theorem C4_counterexample:
  "isReady (st (main bindFailure (initial Map.empty))) \<and>
   \<not> listening (main bindFailure (initial Map.empty)) \<and>
   exited (main bindFailure (initial Map.empty)) \<and>
   events (main bindFailure (initial Map.empty)) =
     [EvMkdirAll, EvGoWorker, EvGoWorker, EvGoWorker, EvGoWorker, EvSetReady True,
      EvListenAndServe, EvFatal]"
proof -
  have "mkdirErr bindFailure = None" "listenErr bindFailure \<noteq> None"
    by (simp_all add: bindFailure_def)
  with main_fields[of bindFailure Map.empty] main_events[of bindFailure Map.empty]
  show ?thesis by (auto simp: workerCount_def numeral_eq_Suc)
qed

lemma statusOf_handleReady:
  "wStatus w = None \<Longrightarrow>
   statusOf (handleReady r w s) = Some (if isReady s then StatusOK else StatusServiceUnavailable)"
  by (simp add: handleReady_def checkReady_def statusOf_def writer_defs)

text \<open>
  C4, amended. The readiness flag is false at process start. When the upload directory
  cannot be created the process exits with the flag still false. Otherwise \<^verbatim>\<open>main\<close>
  creates the directory, spawns the workers, sets the flag true exactly once and only then
  calls \<^verbatim>\<open>ListenAndServe\<close>: the flag is set before the listener binds, and stays set if
  the bind fails. No step of the running process changes the flag, so it is never reset.
  The readiness handler answers 200 when the flag is true and 503 when it is false; since
  requests are served only once the listener is bound, every readiness probe served by a
  reachable process is answered 200.
\<close>

theorem C4_readiness_flag:
  "\<not> isReady (st (initial fs)) \<and>
   (mkdirErr su \<noteq> None \<longrightarrow>
      \<not> isReady (st (main su (initial fs))) \<and> exited (main su (initial fs)) \<and>
      \<not> listening (main su (initial fs))) \<and>
   (mkdirErr su = None \<longrightarrow>
      events (main su (initial fs)) =
        [EvMkdirAll] @ replicate workerCount EvGoWorker @ [EvSetReady True, EvListenAndServe] @
        (case listenErr su of None \<Rightarrow> [] | Some x \<Rightarrow> [EvFatal]) \<and>
      isReady (st (main su (initial fs))) \<and>
      listening (main su (initial fs)) = (listenErr su = None)) \<and>
   (step l p q \<longrightarrow> isReady (st q) = isReady (st p)) \<and>
   (reachable l p \<and> listening p \<longrightarrow> isReady (st p)) \<and>
   (wStatus w = None \<longrightarrow>
      statusOf (handleReady r w s) = Some (if isReady s then StatusOK else StatusServiceUnavailable)) \<and>
   (reachable l p \<and> listening p \<and> dispatch r = RouteReady \<and> Method r \<noteq> MethodOptions \<longrightarrow>
      statusOf (serve l e r (st p)) = Some StatusOK)"
proof -
  have probe: "statusOf (serve l e r (st p)) = Some StatusOK"
    if "reachable l p" "listening p" "dispatch r = RouteReady" "Method r \<noteq> MethodOptions"
    using that reachable_invariant[OF that(1)]
    by (simp add: statusOf_serve statusOf_serverHandler statusOf_withCORS new_writer)
  from probe initial_fields[of fs] main_fields[of su fs] main_events[of su fs]
    step_isReady[of l p q] reachable_invariant[of l p] statusOf_handleReady[of w r s]
  show ?thesis by auto
qed

lemma ex_probe: "dispatch exampleProbe = RouteReady" "Method exampleProbe \<noteq> MethodOptions"
  by (simp_all add: exampleProbe_def dispatch_def MethodOptions_def)

theorem C4_witness:
  "\<not> isReady (st (initial Map.empty)) \<and>
   mkdirErr mkdirFailure \<noteq> None \<and> \<not> isReady (st (main mkdirFailure (initial Map.empty))) \<and>
   mkdirErr bindFailure = None \<and>
   events (main bindFailure (initial Map.empty)) =
     [EvMkdirAll] @ replicate workerCount EvGoWorker @ [EvSetReady True, EvListenAndServe, EvFatal] \<and>
   reachable exampleLib exampleProcess \<and> listening exampleProcess \<and> isReady (st exampleProcess) \<and>
   (\<exists>q. step exampleLib exampleProcess q \<and> isReady (st q)) \<and>
   wStatus newResponseWriter = None \<and>
   statusOf (handleReady exampleProbe newResponseWriter (st (initial Map.empty))) = Some 503 \<and>
   statusOf (handleReady exampleProbe newResponseWriter exampleState) = Some 200 \<and>
   dispatch exampleProbe = RouteReady \<and> Method exampleProbe \<noteq> MethodOptions \<and>
   statusOf (serve exampleLib exampleEnv exampleProbe (st exampleProcess)) = Some 200"
proof -
  have f: "mkdirErr mkdirFailure \<noteq> None" "mkdirErr bindFailure = None"
    "listenErr bindFailure \<noteq> None"
    by (simp_all add: mkdirFailure_def bindFailure_def)
  from statusOf_Some[OF ex_serve_status] obtain w' s' where
    "serve exampleLib exampleEnv examplePost (st exampleProcess) = Return (w', s')"
    by (auto simp: ex_process)
  from step.request[OF ex_process(2,3) this]
  have stp: "step exampleLib exampleProcess (exampleProcess\<lparr>st := s'\<rparr>)" .
  from C4_readiness_flag[where fs = Map.empty and su = mkdirFailure and l = exampleLib
      and p = exampleProcess and q = "exampleProcess\<lparr>st := s'\<rparr>" and w = newResponseWriter
      and r = exampleProbe and s = "st (initial Map.empty)" and e = exampleEnv]
    C4_readiness_flag[where fs = Map.empty and su = bindFailure and l = exampleLib
      and p = exampleProcess and q = "exampleProcess\<lparr>st := s'\<rparr>" and w = newResponseWriter
      and r = exampleProbe and s = exampleState and e = exampleEnv]
    f stp ex_process ex_probe new_writer
  show ?thesis by (auto simp: status_defs)
qed

subsection \<open>Paths of the jobs, and the resources of the write path\<close>

lemma ex_forwarded_status:
  "statusOf (serve exampleLib exampleEnv forwardedPost exampleState) = Some StatusAccepted"
proof -
  have m: "Method forwardedPost = MethodPost" "dispatch forwardedPost = RouteSubmit"
    by (simp_all add: forwardedPost_def examplePost_def MethodPost_def dispatch_def)
  have b: "readBody exampleLib forwardedPost = BodyOk exampleJSON"
    by (simp add: readBody_def forwardedPost_def examplePost_def exampleLib_def Header_Get_def
          MaxBytesReader_def io_ReadAll_def maxBodySize_value exampleJSON_def quoted_def Let_def)
  show ?thesis
    by (simp add: statusOf_serve statusOf_serverHandler statusOf_withCORS new_writer m b
          methods_distinct handlePost_status ex_state writeQueueCap_def exampleEnv_def)
qed

lemma ex_forwarded_path:
  "path (buildRequest exampleLib exampleEnv ''.._.._etc'' exampleJSON) =
     ''uploads/.._.._etc-2024-03-09-07_05_01.000000042-77.json''"
proof -
  have "pathSafe ''.._.._etc''" by (simp add: pathSafe_simps)
  from buildRequest_path[OF this, of exampleLib exampleEnv exampleJSON] show ?thesis
    by (simp add: fileName_def Let_def exampleEnv_def ex_time extOf_def ex_valid rand_Intn_def
          itoa.simps)
qed

lemma ex_queue: "writeQueue exampleState = []"
  by (simp add: ex_state)

subsection \<open>C10\<close>

text \<open>
  C10. Whatever the forwarded-for header holds, the address that goes into the file name
  has no slash, no backslash and no colon, and neither has the file name built from it, the
  timestamp, the suffix and the extension; the job's path is the upload directory joined
  with that one file name, so it names a direct child of the upload directory. Every job
  a request adds to the queue has such a path, every job in the queue of a reachable
  process has such a path, and a step of a reachable process changes the file system
  only at such a path: no request can cause a write outside the upload directory.
\<close>

theorem C10_files_stay_in_upload_directory:
  "(clientAddress l r = Inr ip \<longrightarrow>
      pathSafe ip \<and>
      path (buildRequest l e ip P) = ''uploads/'' @ fileName l e ip P \<and>
      pathSafe (fileName l e ip P) \<and>
      directChild (path (buildRequest l e ip P))) \<and>
   (statusOf (serve l e r s) = Some StatusAccepted \<longrightarrow>
      (\<exists>s' req. stateOf (serve l e r s) = Some s' \<and> writeQueue s' = writeQueue s @ [req] \<and>
         directChild (path req))) \<and>
   (reachable l p \<longrightarrow> (\<forall>req \<in> set (writeQueue (st p)). directChild (path req))) \<and>
   (reachable l p \<and> step l p q \<and> files (st q) f \<noteq> files (st p) f \<longrightarrow> directChild f)"
proof -
  have a: "pathSafe ip \<and>
      path (buildRequest l e ip P) = ''uploads/'' @ fileName l e ip P \<and>
      pathSafe (fileName l e ip P) \<and>
      directChild (path (buildRequest l e ip P))" if c: "clientAddress l r = Inr ip"
  proof -
    from clientAddress_safe[OF c] have s: "pathSafe ip" by simp
    from s buildRequest_path[OF s, of l e P] pathSafe_fileName[OF s, of l e P]
      buildRequest_directChild[OF c, of e P]
    show ?thesis by simp
  qed
  have b: "\<exists>s' req. stateOf (serve l e r s) = Some s' \<and> writeQueue s' = writeQueue s @ [req] \<and>
         directChild (path req)" if "statusOf (serve l e r s) = Some StatusAccepted"
    using serve_queue[OF that] by auto
  have d: "directChild f" if "reachable l p" "step l p q" "files (st q) f \<noteq> files (st p) f"
  proof -
    from step_files[OF that(2,3)] have "writeQueue (st p) \<noteq> []" "f = path (hd (writeQueue (st p)))"
      by simp_all
    with reachable_invariant[OF that(1)] show ?thesis by simp
  qed
  from a b d reachable_invariant[of l p] show ?thesis by blast
qed

theorem C10_witness:
  "clientAddress exampleLib forwardedPost = Inr ''.._.._etc'' \<and>
   path (buildRequest exampleLib exampleEnv ''.._.._etc'' exampleJSON) =
     ''uploads/.._.._etc-2024-03-09-07_05_01.000000042-77.json'' \<and>
   directChild ''uploads/.._.._etc-2024-03-09-07_05_01.000000042-77.json'' \<and>
   statusOf (serve exampleLib exampleEnv forwardedPost exampleState) = Some StatusAccepted \<and>
   (\<exists>s' req. stateOf (serve exampleLib exampleEnv forwardedPost exampleState) = Some s' \<and>
      writeQueue s' = [req] \<and> directChild (path req)) \<and>
   (\<exists>q. reachable exampleLib q \<and> writeQueue (st q) \<noteq> [] \<and>
        (\<forall>req \<in> set (writeQueue (st q)). directChild (path req))) \<and>
   (\<exists>q q' f. reachable exampleLib q \<and> step exampleLib q q' \<and>
        files (st q') f \<noteq> files (st q) f \<and> directChild f)"
proof -
  have a: "clientAddress exampleLib forwardedPost = Inr ''.._.._etc''"
    by (simp add: clientAddress_eq forwardedPost_def examplePost_def exampleLib_def Header_Get_def)
  note t = C10_files_stay_in_upload_directory[where l = exampleLib and r = forwardedPost
      and ip = "''.._.._etc''" and e = exampleEnv and P = exampleJSON and s = exampleState]
  from t a have "directChild (path (buildRequest exampleLib exampleEnv ''.._.._etc'' exampleJSON))"
    by blast
  then have c1: "directChild ''uploads/.._.._etc-2024-03-09-07_05_01.000000042-77.json''"
    unfolding ex_forwarded_path .
  from t ex_forwarded_status
  have "\<exists>s' req. stateOf (serve exampleLib exampleEnv forwardedPost exampleState) = Some s' \<and>
      writeQueue s' = writeQueue exampleState @ [req] \<and> directChild (path req)"
    by blast
  then obtain s' req where s': "stateOf (serve exampleLib exampleEnv forwardedPost exampleState) = Some s'"
    "writeQueue s' = [req]" "directChild (path req)"
    by (auto simp: ex_queue)
  from s'(1) obtain w' where
    sv: "serve exampleLib exampleEnv forwardedPost (st exampleProcess) = Return (w', s')"
    by (auto simp: stateOf_def ex_process split: outcome.splits)
  let ?q = "exampleProcess\<lparr>st := s'\<rparr>"
  from step.request[OF ex_process(2,3) sv]
  have rq: "reachable exampleLib ?q"
    by (rule reachable.next_step[OF ex_process(1)])
  with C10_files_stay_in_upload_directory[where l = exampleLib and p = ?q] s'(2)
  have c2: "\<exists>q. reachable exampleLib q \<and> writeQueue (st q) \<noteq> [] \<and>
        (\<forall>req \<in> set (writeQueue (st q)). directChild (path req))"
    by (intro exI[of _ ?q]) simp
  from serve_effect[OF sv] have fs: "files s' = Map.empty"
    by (auto simp: effect_def handlerFrame_def ex_process ex_state)
  let ?t = "writeToFile exampleIO (data req) (path req) (s'\<lparr>writeQueue := []\<rparr>)"
  have wk: "fileWriterWorker exampleIO (st ?q) = Return ?t"
    using s'(2) by (simp add: fileWriterWorker_def)
  have "0 < workers ?q" "\<not> exited ?q"
    using main_fields[of "\<lparr>mkdirErr = None, listenErr = None\<rparr>" Map.empty]
    by (simp_all add: exampleProcess_def workerCount_def)
  from step.worker[OF this wk] have stp: "step exampleLib ?q (?q\<lparr>st := ?t\<rparr>)" .
  have df: "files (st (?q\<lparr>st := ?t\<rparr>)) (path req) \<noteq> files (st ?q) (path req)"
    by (simp add: writeToFile_files exampleIO_def fs)
  from C10_files_stay_in_upload_directory[where l = exampleLib and p = ?q
      and q = "?q\<lparr>st := ?t\<rparr>" and f = "path req"] rq stp df
  have "directChild (path req)" by blast
  with rq stp df have c3: "\<exists>q q' f. reachable exampleLib q \<and> step exampleLib q q' \<and>
        files (st q') f \<noteq> files (st q) f \<and> directChild f"
    by blast
  from a c1 ex_forwarded_path ex_forwarded_status s' c2 c3 show ?thesis by blast
qed


subsection \<open>C9\<close>

text \<open>
  C9. In every run of \<^verbatim>\<open>writeToFile\<close> in which the file was created, so that a buffer was
  taken from the pool, the run ends with the deferred calls on a state in which the buffer
  is out and the file open: the buffer goes back to the pool and the file is closed,
  whether the write or the flush failed or not. After every run the number of buffers
  out and the open handles are as before. A failure of create, write or flush adds one
  line with the path and the error to the log; the job is not put back on the queue, and
  the responses already sent are not touched.
\<close>

theorem C9_buffer_released_and_file_closed:
  "(createErr io = None \<longrightarrow>
      (\<exists>b s3. writeToFile io dat pth s = file_Close pth (bufferPool_Put b s3) \<and>
              poolBorrowed s3 = poolBorrowed s + 1 \<and> openFiles s3 = pth # openFiles s) \<and>
      length (poolIdle (writeToFile io dat pth s)) = max 1 (length (poolIdle s))) \<and>
   poolBorrowed (writeToFile io dat pth s) = poolBorrowed s \<and>
   openFiles (writeToFile io dat pth s) = openFiles s \<and>
   sent (writeToFile io dat pth s) = sent s \<and>
   writeQueue (writeToFile io dat pth s) = writeQueue s \<and>
   logs (writeToFile io dat pth s) =
     (case createErr io of
        Some x \<Rightarrow> logs s @ [''ERROR: Failed to create file '' @ pth @ '': '' @ x @ [lf]]
      | None \<Rightarrow>
          (case writeErr io of
             None \<Rightarrow> logs s
           | Some (n, x) \<Rightarrow>
               if dat = [] then logs s
               else if length dat \<le> bufferSize then
                 logs s @ [''ERROR: Failed to flush buffer for file '' @ pth @ '': '' @ x @ [lf]]
               else logs s @ [''ERROR: Failed to write to file '' @ pth @ '': '' @ x @ [lf]]))"
  using writeToFile_defers[of io dat pth s] writeToFile_pool[of io dat pth s]
    writeToFile_frame[of io dat pth s] writeToFile_logs[of io dat pth s]
  by simp

theorem C9_witness:
  "createErr failingIO = None \<and>
   poolBorrowed (writeToFile failingIO exampleJSON ''uploads/x.json'' exampleState) = 0 \<and>
   openFiles (writeToFile failingIO exampleJSON ''uploads/x.json'' exampleState) = [] \<and>
   length (poolIdle (writeToFile failingIO exampleJSON ''uploads/x.json'' exampleState)) = 1 \<and>
   sent (writeToFile failingIO exampleJSON ''uploads/x.json'' exampleState) = [] \<and>
   logs (writeToFile failingIO exampleJSON ''uploads/x.json'' exampleState) =
     [''Listening on :8989'' @ [lf],
      ''ERROR: Failed to flush buffer for file uploads/x.json: no space left on device'' @ [lf]]"
  using C9_buffer_released_and_file_closed[of failingIO exampleJSON "''uploads/x.json''" exampleState]
  by (simp add: failingIO_def ex_state exampleJSON_def quoted_def bufferSize_def)

end
